theory Spec2Isabelle
  imports Main
begin

section \<open>Go strings\<close>

text \<open>
  A Go string is a sequence of bytes; it is modelled as a \<open>string\<close> (a list of 8-bit
  characters). The helpers below are the functions of Go's \<open>strings\<close> package that the
  repository calls.
\<close>

definition strings_HasPrefix :: "string \<Rightarrow> string \<Rightarrow> bool" where
  "strings_HasPrefix s p = (take (length p) s = p)"

definition strings_TrimPrefix :: "string \<Rightarrow> string \<Rightarrow> string" where
  "strings_TrimPrefix s p = (if strings_HasPrefix s p then drop (length p) s else s)"

definition strings_HasSuffix :: "string \<Rightarrow> string \<Rightarrow> bool" where
  "strings_HasSuffix s p = (length p \<le> length s \<and> drop (length s - length p) s = p)"

definition spaceRunes :: "string list" where
  \<comment> \<open>the UTF-8 encodings of the runes for which \<open>unicode.IsSpace\<close> holds: tab, line feed,
      vertical tab, form feed, carriage return, space, U+0085, U+00A0, U+1680,
      U+2000 to U+200A, U+2028, U+2029, U+202F, U+205F and U+3000\<close>
  "spaceRunes =
     [[CHR 0x09], [CHR 0x0A], [CHR 0x0B], [CHR 0x0C], [CHR 0x0D], [CHR 0x20],
      [CHR 0xC2, CHR 0x85], [CHR 0xC2, CHR 0xA0],
      [CHR 0xE1, CHR 0x9A, CHR 0x80],
      [CHR 0xE2, CHR 0x80, CHR 0x80], [CHR 0xE2, CHR 0x80, CHR 0x81],
      [CHR 0xE2, CHR 0x80, CHR 0x82], [CHR 0xE2, CHR 0x80, CHR 0x83],
      [CHR 0xE2, CHR 0x80, CHR 0x84], [CHR 0xE2, CHR 0x80, CHR 0x85],
      [CHR 0xE2, CHR 0x80, CHR 0x86], [CHR 0xE2, CHR 0x80, CHR 0x87],
      [CHR 0xE2, CHR 0x80, CHR 0x88], [CHR 0xE2, CHR 0x80, CHR 0x89],
      [CHR 0xE2, CHR 0x80, CHR 0x8A],
      [CHR 0xE2, CHR 0x80, CHR 0xA8], [CHR 0xE2, CHR 0x80, CHR 0xA9],
      [CHR 0xE2, CHR 0x80, CHR 0xAF], [CHR 0xE2, CHR 0x81, CHR 0x9F],
      [CHR 0xE3, CHR 0x80, CHR 0x80]]"

definition leadingSpace :: "string \<Rightarrow> nat" where
  \<comment> \<open>the width in bytes of the white-space rune that \<open>utf8.DecodeRuneInString\<close> reads
      at the start of \<open>s\<close>; 0 when the first rune is no white space\<close>
  "leadingSpace s =
     (case find (strings_HasPrefix s) spaceRunes of None \<Rightarrow> 0 | Some e \<Rightarrow> length e)"

definition trailingSpace :: "string \<Rightarrow> nat" where
  \<comment> \<open>the width in bytes of the white-space rune that \<open>utf8.DecodeLastRuneInString\<close>
      reads at the end of \<open>s\<close>; 0 when the last rune is no white space\<close>
  "trailingSpace s =
     (case find (strings_HasSuffix s) spaceRunes of None \<Rightarrow> 0 | Some e \<Rightarrow> length e)"

function trimLeftSpace :: "string \<Rightarrow> string" where
  \<comment> \<open>\<open>strings.TrimLeftFunc(s, unicode.IsSpace)\<close>\<close>
  "trimLeftSpace s =
     (if leadingSpace s = 0 \<or> s = [] then s else trimLeftSpace (drop (leadingSpace s) s))"
  by pat_completeness auto
termination
  by (relation "measure length") auto

function trimRightSpace :: "string \<Rightarrow> string" where
  \<comment> \<open>\<open>strings.TrimRightFunc(s, unicode.IsSpace)\<close>\<close>
  "trimRightSpace s =
     (if trailingSpace s = 0 \<or> s = [] then s
      else trimRightSpace (take (length s - trailingSpace s) s))"
  by pat_completeness auto
termination
  by (relation "measure length") auto

declare trimLeftSpace.simps [simp del] trimRightSpace.simps [simp del]

definition strings_TrimSpace :: "string \<Rightarrow> string" where
  \<comment> \<open>leading and trailing Unicode white space removed; the ASCII fast path of the
      library function gives the same result\<close>
  "strings_TrimSpace s = trimRightSpace (trimLeftSpace s)"

definition whiteSpaceOnly :: "string \<Rightarrow> bool" where
  \<comment> \<open>the string is a sequence of white-space runes (the empty string included)\<close>
  "whiteSpaceOnly s = (\<exists>rs. set rs \<subseteq> set spaceRunes \<and> s = concat rs)"

definition cut :: "char \<Rightarrow> string \<Rightarrow> string \<times> string \<times> bool" where
  \<comment> \<open>\<open>strings.Cut\<close> with a one-byte separator: the text before the first separator, the
      text after it, and whether the separator occurs\<close>
  "cut sep s =
     (takeWhile (\<lambda>c. c \<noteq> sep) s, drop 1 (dropWhile (\<lambda>c. c \<noteq> sep) s), sep \<in> set s)"

definition cutLast :: "char \<Rightarrow> string \<Rightarrow> string \<times> string" where
  \<comment> \<open>splits at the last separator, which must occur (\<open>strings.LastIndex\<close>): the text
      before it, and the text from the separator on\<close>
  "cutLast sep s =
     (rev (drop 1 (dropWhile (\<lambda>c. c \<noteq> sep) (rev s))),
      sep # rev (takeWhile (\<lambda>c. c \<noteq> sep) (rev s)))"

section \<open>Go's \<open>net/url\<close>\<close>

text \<open>
  \<open>url.Parse\<close> belongs to Go's standard library, not to the repository. The repository
  builds with Go 1.24.1 (its Dockerfile: \<open>FROM golang:1.24.1\<close>), and the model below
  follows \<open>net/url\<close> of that release step by step (fragment, control bytes, scheme, query,
  opaque and relative forms, authority with user information, host and optional port,
  percent-decoding of each component). Only the fields the repository reads are kept.
  In that release a host in brackets is checked for its closing bracket, its port and
  its escapes only; later releases also require the text in brackets to be an IPv6
  address and reject a bracket elsewhere in the host.
\<close>

datatype url_error =
    InvalidControlCharacter | MissingProtocolScheme | FirstSegmentColon
  | InvalidUserinfo | InvalidPort | MissingBracket | EscapeError | InvalidHostError

record URL =
  Scheme :: string
  Opaque :: string
  User :: "(string \<times> string option) option"   \<comment> \<open>user name and optional password\<close>
  Host :: string
  Path :: string
  RawQuery :: string
  Fragment :: string

datatype encoding = encodePath | encodeHost | encodeZone | encodeUserPassword | encodeFragment

definition byte :: "char \<Rightarrow> nat" where
  "byte c = of_char c"

definition isLetter :: "char \<Rightarrow> bool" where
  "isLetter c = ((byte (CHR ''a'') \<le> byte c \<and> byte c \<le> byte (CHR ''z'')) \<or>
                 (byte (CHR ''A'') \<le> byte c \<and> byte c \<le> byte (CHR ''Z'')))"

definition isDigit :: "char \<Rightarrow> bool" where
  "isDigit c = (byte (CHR ''0'') \<le> byte c \<and> byte c \<le> byte (CHR ''9''))"

definition ishex :: "char \<Rightarrow> bool" where
  "ishex c = (isDigit c \<or> (byte (CHR ''a'') \<le> byte c \<and> byte c \<le> byte (CHR ''f'')) \<or>
              (byte (CHR ''A'') \<le> byte c \<and> byte c \<le> byte (CHR ''F'')))"

definition unhex :: "char \<Rightarrow> nat" where
  "unhex c =
     (if isDigit c then byte c - byte (CHR ''0'')
      else if byte (CHR ''a'') \<le> byte c \<and> byte c \<le> byte (CHR ''f'') then byte c - byte (CHR ''a'') + 10
      else if byte (CHR ''A'') \<le> byte c \<and> byte c \<le> byte (CHR ''F'') then byte c - byte (CHR ''A'') + 10
      else 0)"

definition shouldEscapeHost :: "char \<Rightarrow> bool" where
  \<comment> \<open>\<open>shouldEscape(c, encodeHost)\<close>: the bytes that may not stand unescaped in a host\<close>
  "shouldEscapeHost c =
     (\<not> (isLetter c \<or> isDigit c \<or> c \<in> set ''!$&'()*+,;=:[]<>\"-_.~''))"

fun getScheme :: "nat \<Rightarrow> string \<Rightarrow> string \<Rightarrow> url_error + string \<times> string" where
  \<comment> \<open>\<open>getScheme i rest rawURL\<close>: the loop of \<open>getScheme\<close> at index \<open>i\<close>, \<open>rest\<close> being
      \<open>rawURL[i:]\<close>\<close>
  "getScheme i [] rawURL = Inr ([], rawURL)"
| "getScheme i (c # cs) rawURL =
     (if isLetter c then getScheme (Suc i) cs rawURL
      else if isDigit c \<or> c = CHR ''+'' \<or> c = CHR ''-'' \<or> c = CHR ''.'' then
        (if i = 0 then Inr ([], rawURL) else getScheme (Suc i) cs rawURL)
      else if c = CHR '':'' then
        (if i = 0 then Inl MissingProtocolScheme else Inr (take i rawURL, cs))
      else Inr ([], rawURL))"

fun unescape :: "encoding \<Rightarrow> string \<Rightarrow> url_error + string" where
  "unescape mode [] = Inr []"
| "unescape mode (c # s) =
     (if c = CHR ''%'' then
        (case s of
           h1 # h2 # r \<Rightarrow>
             if \<not> ishex h1 \<or> \<not> ishex h2 then Inl EscapeError
             else if mode = encodeHost \<and> unhex h1 < 8 \<and> [h1, h2] \<noteq> ''25'' then Inl EscapeError
             else if mode = encodeZone \<and> [h1, h2] \<noteq> ''25''
                     \<and> unhex h1 * 16 + unhex h2 \<noteq> 32
                     \<and> shouldEscapeHost (char_of (unhex h1 * 16 + unhex h2)) then Inl EscapeError
             else (case unescape mode r of
                     Inl e \<Rightarrow> Inl e
                   | Inr t \<Rightarrow> Inr (char_of (unhex h1 * 16 + unhex h2) # t))
         | _ \<Rightarrow> Inl EscapeError)
      else if (mode = encodeHost \<or> mode = encodeZone) \<and> byte c < 128 \<and> shouldEscapeHost c
        then Inl InvalidHostError
      else (case unescape mode s of Inl e \<Rightarrow> Inl e | Inr t \<Rightarrow> Inr (c # t)))"

definition validOptionalPort :: "string \<Rightarrow> bool" where
  "validOptionalPort port =
     (case port of [] \<Rightarrow> True | c # ds \<Rightarrow> c = CHR '':'' \<and> list_all isDigit ds)"

definition validUserinfo :: "string \<Rightarrow> bool" where
  "validUserinfo s =
     list_all (\<lambda>r. isLetter r \<or> isDigit r \<or> r \<in> set ''-._:~!$&'()*+,;=%@'') s"

fun indexOf :: "string \<Rightarrow> string \<Rightarrow> nat option" where
  \<comment> \<open>\<open>strings.Index\<close>: the position of the first occurrence of \<open>p\<close>\<close>
  "indexOf [] p = (if p = [] then Some 0 else None)"
| "indexOf (c # s) p =
     (if strings_HasPrefix (c # s) p then Some 0 else map_option Suc (indexOf s p))"

definition parseHost :: "string \<Rightarrow> url_error + string" where
  "parseHost host =
     (if strings_HasPrefix host ''['' then
        (if CHR '']'' \<notin> set host then Inl MissingBracket
         else
           let i = length (fst (cutLast (CHR '']'') host)) in
           if \<not> validOptionalPort (drop (Suc i) host) then Inl InvalidPort
           else (case indexOf (take i host) ''%25'' of
                   Some zone \<Rightarrow>
                     (case unescape encodeHost (take zone host) of
                        Inl e \<Rightarrow> Inl e
                      | Inr host1 \<Rightarrow>
                         (case unescape encodeZone (take (i - zone) (drop zone host)) of
                            Inl e \<Rightarrow> Inl e
                          | Inr host2 \<Rightarrow>
                             (case unescape encodeHost (drop i host) of
                                Inl e \<Rightarrow> Inl e
                              | Inr host3 \<Rightarrow> Inr (host1 @ host2 @ host3))))
                 | None \<Rightarrow> unescape encodeHost host))
      else if CHR '':'' \<in> set host \<and> \<not> validOptionalPort (snd (cutLast (CHR '':'') host))
        then Inl InvalidPort
      else unescape encodeHost host)"

definition parseAuthority ::
  "string \<Rightarrow> url_error + (string \<times> string option) option \<times> string" where
  "parseAuthority authority =
     (if CHR ''@'' \<notin> set authority then
        (case parseHost authority of Inl e \<Rightarrow> Inl e | Inr host \<Rightarrow> Inr (None, host))
      else
        let userinfo = fst (cutLast (CHR ''@'') authority) in
        (case parseHost (drop 1 (snd (cutLast (CHR ''@'') authority))) of
           Inl e \<Rightarrow> Inl e
         | Inr host \<Rightarrow>
            if \<not> validUserinfo userinfo then Inl InvalidUserinfo
            else if CHR '':'' \<notin> set userinfo then
              (case unescape encodeUserPassword userinfo of
                 Inl e \<Rightarrow> Inl e
               | Inr username \<Rightarrow> Inr (Some (username, None), host))
            else
              (case cut (CHR '':'') userinfo of (username, password, _) \<Rightarrow>
                 (case unescape encodeUserPassword username of
                    Inl e \<Rightarrow> Inl e
                  | Inr username' \<Rightarrow>
                     (case unescape encodeUserPassword password of
                        Inl e \<Rightarrow> Inl e
                      | Inr password' \<Rightarrow> Inr (Some (username', Some password'), host))))))"

definition emptyURL :: URL where
  "emptyURL = \<lparr>Scheme = [], Opaque = [], User = None, Host = [], Path = [], RawQuery = [],
               Fragment = []\<rparr>"

definition toLower :: "string \<Rightarrow> string" where
  "toLower s = map (\<lambda>c. if byte (CHR ''A'') \<le> byte c \<and> byte c \<le> byte (CHR ''Z'')
                          then char_of (byte c + 32) else c) s"

definition setPath :: "URL \<Rightarrow> string \<Rightarrow> url_error + URL" where
  "setPath u p = (case unescape encodePath p of Inl e \<Rightarrow> Inl e | Inr path \<Rightarrow> Inr (u\<lparr>Path := path\<rparr>))"

definition parse :: "string \<Rightarrow> url_error + URL" where
  \<comment> \<open>\<open>parse(rawURL, viaRequest = false)\<close>\<close>
  "parse rawURL =
     (if list_ex (\<lambda>b. byte b < 32 \<or> byte b = 127) rawURL then Inl InvalidControlCharacter
      else if rawURL = ''*'' then Inr (emptyURL\<lparr>Path := ''*''\<rparr>)
      else
        (case getScheme 0 rawURL rawURL of
           Inl e \<Rightarrow> Inl e
         | Inr (scheme, rest0) \<Rightarrow>
            (case cut (CHR ''?'') rest0 of (rest, query, _) \<Rightarrow>
               let url = emptyURL\<lparr>Scheme := toLower scheme, RawQuery := query\<rparr> in
               if \<not> strings_HasPrefix rest ''/'' \<and> scheme \<noteq> [] then Inr (url\<lparr>Opaque := rest\<rparr>)
               else if \<not> strings_HasPrefix rest ''/''
                       \<and> CHR '':'' \<in> set (fst (cut (CHR ''/'') rest)) then Inl FirstSegmentColon
               else if (scheme \<noteq> [] \<or> \<not> strings_HasPrefix rest ''///'')
                       \<and> strings_HasPrefix rest ''//'' then
                 (case cut (CHR ''/'') (drop 2 rest) of (authority, _, _) \<Rightarrow>
                    (case parseAuthority authority of
                       Inl e \<Rightarrow> Inl e
                     | Inr (user, host) \<Rightarrow>
                        setPath (url\<lparr>User := user, Host := host\<rparr>)
                          (drop (length authority) (drop 2 rest))))
               else setPath url rest)))"

definition url_Parse :: "string \<Rightarrow> url_error + URL" where
  "url_Parse rawURL =
     (case cut (CHR ''#'') rawURL of (u, frag, _) \<Rightarrow>
        (case parse u of
           Inl e \<Rightarrow> Inl e
         | Inr url \<Rightarrow>
            if frag = [] then Inr url
            else (case unescape encodeFragment frag of
                    Inl e \<Rightarrow> Inl e
                  | Inr f \<Rightarrow> Inr (url\<lparr>Fragment := f\<rparr>))))"

definition splitHostPort :: "string \<Rightarrow> string \<times> string" where
  "splitHostPort hostPort =
     (let (host, port) =
            (if CHR '':'' \<in> set hostPort \<and> validOptionalPort (snd (cutLast (CHR '':'') hostPort))
             then (fst (cutLast (CHR '':'') hostPort), drop 1 (snd (cutLast (CHR '':'') hostPort)))
             else (hostPort, []))
      in (if strings_HasPrefix host ''['' \<and> host \<noteq> [] \<and> last host = CHR '']''
          then butlast (drop 1 host) else host, port))"

definition Hostname :: "URL \<Rightarrow> string" where
  "Hostname u = fst (splitHostPort (Host u))"

definition Port :: "URL \<Rightarrow> string" where
  "Port u = snd (splitHostPort (Host u))"

definition Username :: "URL \<Rightarrow> string" where
  \<comment> \<open>\<open>parsed.User.Username()\<close>, guarded in the source by \<open>parsed.User != nil\<close>\<close>
  "Username u = (case User u of None \<Rightarrow> [] | Some (name, _) \<Rightarrow> name)"

section \<open>Identity resolver (package \<open>utils\<close>)\<close>

datatype error =
    EmptyConnString                 \<comment> \<open>"the connection string must not be empty"\<close>
  | InvalidFormat url_error         \<comment> \<open>a wrapped \<open>url.Parse\<close> error\<close>
  | ParseFailed url_error           \<comment> \<open>\<open>ConnectionStringToUUID\<close>: parsing failed\<close>
  | UnknownConnID string            \<comment> \<open>the identity is not registered\<close>
  | ParseConfigFailed string        \<comment> \<open>\<open>pgxpool.ParseConfig\<close> failed\<close>
  | CreatePoolFailed string         \<comment> \<open>\<open>pgxpool.NewWithConfig\<close> failed\<close>
  | GetPoolFailed string error      \<comment> \<open>\<open>ExecuteQuery\<close>: no pool for the identity\<close>
  | DriverError string              \<comment> \<open>an error reported by the driver or the database\<close>
  | AcquireFailed error | BeginTxFailed error | QueryFailed error | ReadRowFailed error
  | IterateRowsFailed error | ConvertFailed error | IterationFailed error | CommitFailed error
  | FetchSchemasFailed error        \<comment> \<open>\<open>LoadSchema\<close>: the schema list could not be fetched\<close>

definition canonicalString :: "URL \<Rightarrow> string" where
  \<comment> \<open>the local \<open>canonicalString\<close> of \<open>ConnectionStringToUUID\<close>: \<open>user@host:port/dbname\<close>\<close>
  "canonicalString parsed =
     (let user = Username parsed;
          host = Hostname parsed;
          port = (if Port parsed = [] then ''5432'' else Port parsed);
          dbName = (if strings_TrimPrefix (Path parsed) ''/'' = [] then ''postgres''
                    else strings_TrimPrefix (Path parsed) ''/'')
      in user @ ''@'' @ host @ '':'' @ port @ ''/'' @ dbName)"

definition ConnectionStringToUUID :: "(string \<Rightarrow> string) \<Rightarrow> string \<Rightarrow> error + string" where
  \<comment> \<open>\<open>NewSHA1\<close> stands for \<open>uuid.NewSHA1(postgresqlNamespace, _).String()\<close> of the
      external package \<open>github.com/google/uuid\<close> (a version-5 UUID, SHA-1 based)\<close>
  "ConnectionStringToUUID NewSHA1 connectionString =
     (let connectionString' =
            (if \<not> strings_HasPrefix connectionString ''postgresql://''
             then ''postgresql://'' @ connectionString else connectionString)
      in case url_Parse connectionString' of
           Inl err \<Rightarrow> Inl (ParseFailed err)
         | Inr parsed \<Rightarrow> Inr (NewSHA1 (canonicalString parsed)))"

section \<open>Connection registry and pool manager (package \<open>databases\<close>)\<close>

definition normalizeConnectionString :: "string \<Rightarrow> error + string" where
  "normalizeConnectionString connString =
     (let trimmed = strings_TrimSpace connString in
      if trimmed = [] then Inl EmptyConnString
      else if \<not> strings_HasPrefix trimmed ''postgresql://''
              \<and> \<not> strings_HasPrefix trimmed ''postgres://'' then
        (case url_Parse (''postgresql://'' @ trimmed) of
           Inl err \<Rightarrow>
             (case url_Parse trimmed of
                Inl errDirect \<Rightarrow> Inl (InvalidFormat errDirect)
              | Inr _ \<Rightarrow> Inr trimmed)
         | Inr _ \<Rightarrow> Inr (''postgresql://'' @ trimmed))
      else
        (case url_Parse trimmed of
           Inl err \<Rightarrow> Inl (InvalidFormat err)
         | Inr _ \<Rightarrow> Inr trimmed))"

text \<open>
  A pool is a heap object of the driver; it is modelled by its allocation number. The
  service keeps the three maps of \<open>pgxService\<close>; \<open>poolsCreated\<close> counts the pools ever
  constructed and \<open>closedPools\<close> records the pools on which \<open>Close\<close> was called.
\<close>

datatype pool = Pool nat

record pgxService =
  connMap :: "string \<rightharpoonup> string"
  reverseMap :: "string \<rightharpoonup> string"
  pools :: "string \<rightharpoonup> pool"
  poolsCreated :: nat
  closedPools :: "pool set"

definition NewPgxService :: pgxService where
  "NewPgxService = \<lparr>connMap = Map.empty, reverseMap = Map.empty, pools = Map.empty,
                     poolsCreated = 0, closedPools = {}\<rparr>"

text \<open>
  \<open>RegisterConnection\<close> returns Go's pair of an identity and an error; \<open>None\<close> is a
  panic. The log statement of a new registration slices the first 20 bytes of the
  normalized string, which panics on a shorter string, after both maps were written.
  The asynchronous ping of an existing pool changes no state of the service and is left
  out. The second look-up under the write lock is the same look-up in a sequential run.
\<close>

definition RegisterConnection ::
  "(string \<Rightarrow> string) \<Rightarrow> string \<Rightarrow> pgxService
     \<Rightarrow> (string \<times> error option) option \<times> pgxService" where
  "RegisterConnection NewSHA1 connString s =
     (case normalizeConnectionString connString of
        Inl err \<Rightarrow> (Some ([], Some err), s)
      | Inr normalizedConnString \<Rightarrow>
         (case reverseMap s normalizedConnString of
            Some existingConnID \<Rightarrow> (Some (existingConnID, None), s)
          | None \<Rightarrow>
             (case ConnectionStringToUUID NewSHA1 normalizedConnString of
                Inl err \<Rightarrow> (Some (''err'', Some err), s)
              | Inr newConnID \<Rightarrow>
                 (if length normalizedConnString < 20 then None else Some (newConnID, None),
                  s\<lparr>connMap := (connMap s)(newConnID \<mapsto> normalizedConnString),
                    reverseMap := (reverseMap s)(normalizedConnString \<mapsto> newConnID)\<rparr>))))"

definition DisconnectConnection :: "string \<Rightarrow> pgxService \<Rightarrow> error option \<times> pgxService" where
  "DisconnectConnection connID s =
     (case connMap s connID of
        None \<Rightarrow> (Some (UnknownConnID connID), s)
      | Some connString \<Rightarrow>
         (let s1 = s\<lparr>connMap := (connMap s)(connID := None),
                      reverseMap := (reverseMap s)(connString := None)\<rparr>
          in case pools s1 connID of
               Some p \<Rightarrow> (None, s1\<lparr>pools := (pools s1)(connID := None),
                                     closedPools := insert p (closedPools s1)\<rparr>)
             | None \<Rightarrow> (None, s1)))"

text \<open>
  The driver is the environment of \<open>GetPool\<close>: whether \<open>pgxpool.ParseConfig\<close> accepts a
  connection string and whether \<open>pgxpool.NewWithConfig\<close> succeeds for it.
\<close>

record driver =
  ParseConfig_ok :: "string \<Rightarrow> bool"
  NewWithConfig_ok :: "string \<Rightarrow> bool"

definition GetPool :: "driver \<Rightarrow> string \<Rightarrow> pgxService \<Rightarrow> (error + pool) \<times> pgxService" where
  "GetPool drv connID s =
     (case connMap s connID of
        None \<Rightarrow> (Inl (UnknownConnID connID), s)
      | Some connString \<Rightarrow>
         (case pools s connID of
            Some p \<Rightarrow> (Inr p, s)
          | None \<Rightarrow>
             if \<not> ParseConfig_ok drv connString then (Inl (ParseConfigFailed connID), s)
             else if \<not> NewWithConfig_ok drv connString then (Inl (CreatePoolFailed connID), s)
             else
               (let newPool = Pool (poolsCreated s) in
                (Inr newPool, s\<lparr>pools := (pools s)(connID \<mapsto> newPool),
                                poolsCreated := Suc (poolsCreated s)\<rparr>))))"

definition CloseAll :: "pgxService \<Rightarrow> error option \<times> pgxService" where
  "CloseAll s =
     (None, s\<lparr>pools := Map.empty, connMap := Map.empty, reverseMap := Map.empty,
              closedPools := closedPools s \<union> ran (pools s)\<rparr>)"

text \<open>
  A finite run of the registry: any sequence of the three operations that change the
  maps, started from the freshly constructed service.
\<close>

datatype registry_op = Register string | Disconnect string | CloseAllOp

fun apply_op :: "(string \<Rightarrow> string) \<Rightarrow> pgxService \<Rightarrow> registry_op \<Rightarrow> pgxService" where
  "apply_op NewSHA1 s (Register connString) = snd (RegisterConnection NewSHA1 connString s)"
| "apply_op NewSHA1 s (Disconnect connID) = snd (DisconnectConnection connID s)"
| "apply_op NewSHA1 s CloseAllOp = snd (CloseAll s)"

definition run_ops :: "(string \<Rightarrow> string) \<Rightarrow> registry_op list \<Rightarrow> pgxService" where
  "run_ops NewSHA1 ops = foldl (apply_op NewSHA1) NewPgxService ops"






definition driver_accepting :: "string \<Rightarrow> driver" where
  \<comment> \<open>a driver that constructs a pool for one connection string and for no other\<close>
  "driver_accepting connString =
     \<lparr>ParseConfig_ok = (\<lambda>str. str = connString), NewWithConfig_ok = (\<lambda>str. str = connString)\<rparr>"

definition driver_ok :: driver where
  \<comment> \<open>a driver for which every pool construction succeeds\<close>
  "driver_ok = \<lparr>ParseConfig_ok = (\<lambda>connString. True), NewWithConfig_ok = (\<lambda>connString. True)\<rparr>"

section \<open>Query executor\<close>

text \<open>
  A value of Go's \<open>any\<close> as the driver hands it over: the dynamic types the repository
  tests for, and \<open>Other\<close> for every other type. The integer constructors carry a value
  in the range of their Go type. A float is represented by its integral part, which is
  all the repository reads of it (\<open>int64(val)\<close>); NaN and the infinities stand as an
  integer out of the range of \<open>int64\<close>.
\<close>

datatype any =
    Null | Str string | Int64 int | Int32 int | GoInt int | Float64 int | Float32 int
  | Bool bool | Anys "any list" | Strs "string list" | Other

type_synonym row = "string \<rightharpoonup> any"   \<comment> \<open>\<open>map[string]any\<close>\<close>

datatype 'a result = Ok 'a | Err error | Panic

text \<open>
  The driver is the environment of the executor. One call is described by what the
  driver answers at each step: acquiring a connection, beginning the transaction, running
  the statement, iterating the rows, and committing.
\<close>

record pgxRows =
  FieldDescriptions :: "string list"          \<comment> \<open>the column names, in the driver's order\<close>
  rowValues :: "(error + any list) list"      \<comment> \<open>\<open>rows.Values()\<close> of each row that \<open>rows.Next()\<close> yields\<close>
  rowsErr :: "error option"                   \<comment> \<open>\<open>rows.Err()\<close>\<close>

record pgxCall =
  Acquire_err :: "error option"
  BeginTx_err :: "error option"
  Query_result :: "error + pgxRows"
  Commit_err :: "error option"

fun rowMap :: "string list \<Rightarrow> any list \<Rightarrow> row \<Rightarrow> row option" where
  \<comment> \<open>the loop \<open>for i, fd := range fieldDescriptions { rowMap[fd.Name] = values[i] }\<close>;
      \<open>None\<close> is the index-out-of-range panic on a short \<open>values\<close>\<close>
  "rowMap [] values m = Some m"
| "rowMap (fd # fds) [] m = None"
| "rowMap (fd # fds) (v # values) m = rowMap fds values (m(fd \<mapsto> v))"

fun rowsLoop :: "string list \<Rightarrow> (error + any list) list \<Rightarrow> row list \<Rightarrow> row list result" where
  "rowsLoop fieldDescriptions [] results = Ok results"
| "rowsLoop fieldDescriptions (Inl err # rest) results = Err (ReadRowFailed err)"
| "rowsLoop fieldDescriptions (Inr values # rest) results =
     (case rowMap fieldDescriptions values Map.empty of
        None \<Rightarrow> Panic
      | Some m \<Rightarrow> rowsLoop fieldDescriptions rest (results @ [m]))"

definition rowsToMaps :: "pgxRows \<Rightarrow> row list result" where
  "rowsToMaps rows =
     (case rowsLoop (FieldDescriptions rows) (rowValues rows) [] of
        Ok results \<Rightarrow>
          (case rowsErr rows of Some err \<Rightarrow> Err (IterateRowsFailed err) | None \<Rightarrow> Ok results)
      | other \<Rightarrow> other)"

definition executeQueryInternal :: "pgxCall \<Rightarrow> row list result" where
  "executeQueryInternal call =
     (case Acquire_err call of
        Some err \<Rightarrow> Err (AcquireFailed err)
      | None \<Rightarrow>
         (case BeginTx_err call of
            Some err \<Rightarrow> Err (BeginTxFailed err)
          | None \<Rightarrow>
             (case Query_result call of
                Inl err \<Rightarrow> Err (QueryFailed err)
              | Inr rows \<Rightarrow>
                 (case rowsToMaps rows of
                    Ok results \<Rightarrow>
                      (case rowsErr rows of
                         Some err \<Rightarrow> Err (IterationFailed err)
                       | None \<Rightarrow>
                          (case Commit_err call of
                             Some err \<Rightarrow> Err (CommitFailed err)
                           | None \<Rightarrow> Ok results))
                  | Err err \<Rightarrow> Err (ConvertFailed err)
                  | Panic \<Rightarrow> Panic))))"

text \<open>
  \<open>ExecuteQuery\<close> of the service: the pool of the identity, then the internal function.
  \<open>pgx\<close> gives the driver's answers for a call on a pool.
\<close>

type_synonym pgx = "pool \<Rightarrow> bool \<Rightarrow> string \<Rightarrow> any list \<Rightarrow> pgxCall"

definition ExecuteQuery ::
  "driver \<Rightarrow> pgx \<Rightarrow> string \<Rightarrow> bool \<Rightarrow> string \<Rightarrow> any list \<Rightarrow> pgxService
     \<Rightarrow> row list result \<times> pgxService" where
  "ExecuteQuery drv pgx connID readOnly sql args s =
     (case GetPool drv connID s of
        (Inl err, s') \<Rightarrow> (Err (GetPoolFailed connID err), s')
      | (Inr p, s') \<Rightarrow> (executeQueryInternal (pgx p readOnly sql args), s'))"

definition two_columns :: pgxCall where
  \<comment> \<open>a call that yields one row of the columns \<open>id\<close>, \<open>name\<close>\<close>
  "two_columns =
     \<lparr>Acquire_err = None, BeginTx_err = None,
      Query_result = Inr \<lparr>FieldDescriptions = [''id'', ''name''],
                          rowValues = [Inr [Int64 1, Str ''a'']], rowsErr = None\<rparr>,
      Commit_err = None\<rparr>"

definition two_columns_swapped :: pgxCall where
  \<comment> \<open>the same row with the columns in the other order: \<open>name\<close>, \<open>id\<close>\<close>
  "two_columns_swapped =
     \<lparr>Acquire_err = None, BeginTx_err = None,
      Query_result = Inr \<lparr>FieldDescriptions = [''name'', ''id''],
                          rowValues = [Inr [Str ''a'', Int64 1]], rowsErr = None\<rparr>,
      Commit_err = None\<rparr>"

section \<open>Schema structures (package \<open>schemas\<close>)\<close>

record ForeignKeyInfo =
  ConstraintName :: string
  FK_Columns :: "string list"
  ReferencedSchema :: string
  ReferencedTable :: string
  ReferencedColumns :: "string list"
  FK_Description :: string

record IndexInfo =
  IndexName :: string
  IndexType :: string
  Index_Columns :: "string list"
  IsUnique :: bool
  IsPrimary :: bool
  IndexDefinition :: string
  Index_Description :: string

record ColumnInfo =
  Column_Name :: string
  Column_Type :: string
  IsNullable :: bool
  DefaultValue :: "string option"
  Column_Description :: string
  Constraints :: "string list"     \<comment> \<open>\<open>ColumnConstraint\<close> is a string type\<close>

record TableInfo =
  Table_Name :: string
  Table_Description :: string
  RowCount :: int
  Columns :: "ColumnInfo list"
  Indexes :: "IndexInfo list"
  ForeignKeys :: "ForeignKeyInfo list"

record SchemaInfo =
  Schema_Name :: string
  Schema_Description :: string
  Tables :: "TableInfo list"

record DatabaseInfo =
  Schemas :: "SchemaInfo list"

definition ForeignKeyConstraint :: string where
  "ForeignKeyConstraint = ''FOREIGN KEY''"

section \<open>Schema crawler and cache\<close>

text \<open>
  The manager reaches the database through the interface \<open>databases.Service\<close>. Its
  \<open>ExecuteQuery\<close> is the environment of the crawl: a function that answers each catalog
  query (all of them read-only) with an error or with rows, and that may depend on
  everything that happened before. The crawl keeps a log of its lock operations and
  queries, in the order in which they happen.
\<close>

datatype query = QSchemas | QTables | QColumns | QConstraints | QIndexes | QForeignKeys

datatype event = Lock | Unlock | Query query "string list"

type_synonym dbService = "event list \<Rightarrow> string \<Rightarrow> query \<Rightarrow> string list \<Rightarrow> error + row list"

definition dbExecuteQuery ::
  "dbService \<Rightarrow> string \<Rightarrow> query \<Rightarrow> string list \<Rightarrow> event list
     \<Rightarrow> (error + row list) \<times> event list" where
  "dbExecuteQuery db connID q args log = (db log connID q args, log @ [Query q args])"

definition get :: "row \<Rightarrow> string \<Rightarrow> any" where
  \<comment> \<open>\<open>row[key]\<close>: a missing key reads as the nil interface\<close>
  "get r key = (case r key of None \<Rightarrow> Null | Some v \<Rightarrow> v)"

definition assertString :: "any \<Rightarrow> string option" where
  \<comment> \<open>the type assertion \<open>v.(string)\<close>; \<open>None\<close> is its panic\<close>
  "assertString v = (case v of Str s \<Rightarrow> Some s | _ \<Rightarrow> None)"

definition assertBool :: "any \<Rightarrow> bool option" where
  \<comment> \<open>the type assertion \<open>v.(bool)\<close>; \<open>None\<close> is its panic\<close>
  "assertBool v = (case v of Bool b \<Rightarrow> Some b | _ \<Rightarrow> None)"

definition dbString :: "any \<Rightarrow> string" where
  "dbString v = (case v of Str s \<Rightarrow> s | _ \<Rightarrow> [])"

definition dbStringPtr :: "any \<Rightarrow> string option" where
  "dbStringPtr v = (case v of Str s \<Rightarrow> Some s | _ \<Rightarrow> None)"

definition floatToInt64 :: "int \<Rightarrow> int" where
  \<comment> \<open>the conversion \<open>int64(val)\<close> of a float with the given integral part. Go leaves the
      result open when the value does not fit; the value here is the one of the amd64
      target, the smallest \<open>int64\<close>\<close>
  "floatToInt64 i = (if - (2 ^ 63) \<le> i \<and> i < 2 ^ 63 then i else - (2 ^ 63))"

definition dbInt64 :: "any \<Rightarrow> int" where
  "dbInt64 v =
     (case v of Int64 i \<Rightarrow> i | Int32 i \<Rightarrow> i | GoInt i \<Rightarrow> i
      | Float64 i \<Rightarrow> floatToInt64 i | Float32 i \<Rightarrow> floatToInt64 i
      | _ \<Rightarrow> 0)"

definition stringInSlice :: "string \<Rightarrow> string list \<Rightarrow> bool" where
  "stringInSlice a list = (a \<in> set list)"

definition interfaceSliceToStringSlice :: "any \<Rightarrow> string list" where
  \<comment> \<open>a nil slice and an empty slice are both \<open>[]\<close>\<close>
  "interfaceSliceToStringSlice slice =
     (case slice of
        Anys interfaceSlice \<Rightarrow> concat (map (\<lambda>item. case item of Str s \<Rightarrow> [s] | _ \<Rightarrow> []) interfaceSlice)
      | Strs stringSlice \<Rightarrow> stringSlice
      | _ \<Rightarrow> [])"

definition fetchSchemas :: "dbService \<Rightarrow> string \<Rightarrow> event list \<Rightarrow> (error + row list) \<times> event list" where
  "fetchSchemas db connID log = dbExecuteQuery db connID QSchemas [] log"

definition fetchTables ::
  "dbService \<Rightarrow> string \<Rightarrow> string \<Rightarrow> event list \<Rightarrow> (error + row list) \<times> event list" where
  "fetchTables db connID schemaName log = dbExecuteQuery db connID QTables [schemaName] log"

definition fetchConstraintsForTable ::
  "dbService \<Rightarrow> string \<Rightarrow> string \<Rightarrow> string \<Rightarrow> event list
     \<Rightarrow> (error + row list) \<times> event list" where
  "fetchConstraintsForTable db connID schemaName tableName log =
     dbExecuteQuery db connID QConstraints [schemaName, tableName] log"

fun columnConstraints :: "string \<Rightarrow> row list \<Rightarrow> string list" where
  \<comment> \<open>the loop over \<open>constraints\<close> for one column\<close>
  "columnConstraints colName [] = []"
| "columnConstraints colName (constr # rest) =
     (let constrCols = (case get constr ''column_names'' of Strs ss \<Rightarrow> ss | _ \<Rightarrow> []);
          constrTypeDesc = (case get constr ''constraint_type_desc'' of Str s \<Rightarrow> s | _ \<Rightarrow> [])
      in (if stringInSlice colName constrCols
             \<and> constrTypeDesc \<noteq> ForeignKeyConstraint \<and> constrTypeDesc \<noteq> []
          then [constrTypeDesc] else [])
         @ columnConstraints colName rest)"

fun columnsOfRows :: "row list \<Rightarrow> row list \<Rightarrow> ColumnInfo list \<Rightarrow> ColumnInfo list result" where
  \<comment> \<open>the loop over the column rows in \<open>fetchColumns\<close>\<close>
  "columnsOfRows [] constraints columns = Ok columns"
| "columnsOfRows (r # rows) constraints columns =
     (case assertString (get r ''column_name'') of
        None \<Rightarrow> Panic
      | Some colName \<Rightarrow>
         (case assertString (get r ''is_nullable'') of
            None \<Rightarrow> Panic
          | Some nullable \<Rightarrow>
             columnsOfRows rows constraints
               (columns @ [\<lparr>Column_Name = colName,
                             Column_Type = dbString (get r ''formatted_type''),
                             IsNullable = (nullable = ''YES''),
                             DefaultValue = dbStringPtr (get r ''column_default''),
                             Column_Description = dbString (get r ''description''),
                             Constraints = columnConstraints colName constraints\<rparr>])))"

definition fetchColumns ::
  "dbService \<Rightarrow> string \<Rightarrow> string \<Rightarrow> string \<Rightarrow> event list
     \<Rightarrow> ColumnInfo list result \<times> event list" where
  "fetchColumns db connID schemaName tableName log =
     (case dbExecuteQuery db connID QColumns [schemaName, tableName] log of
        (Inl err, log1) \<Rightarrow> (Err err, log1)
      | (Inr rows, log1) \<Rightarrow>
         (case fetchConstraintsForTable db connID schemaName tableName log1 of
            (Inl err, log2) \<Rightarrow> (columnsOfRows rows [] [], log2)
          | (Inr constraints, log2) \<Rightarrow> (columnsOfRows rows constraints [], log2)))"

fun indexesOfRows :: "row list \<Rightarrow> IndexInfo list \<Rightarrow> IndexInfo list result" where
  \<comment> \<open>the loop over the index rows in \<open>fetchIndexes\<close>\<close>
  "indexesOfRows [] indexes = Ok indexes"
| "indexesOfRows (r # rows) indexes =
     (let cols = (case get r ''column_names'' of
                    Anys colsInterface \<Rightarrow> map (\<lambda>v. case v of Str s \<Rightarrow> s | _ \<Rightarrow> []) colsInterface
                  | Strs colsString \<Rightarrow> colsString
                  | _ \<Rightarrow> [])
      in case (assertString (get r ''index_name''), assertString (get r ''index_type''),
               assertBool (get r ''is_unique''), assertBool (get r ''is_primary'')) of
           (Some name, Some type, Some unique, Some primary) \<Rightarrow>
             indexesOfRows rows
               (indexes @ [\<lparr>IndexName = name, IndexType = type, Index_Columns = cols,
                             IsUnique = unique, IsPrimary = primary,
                             IndexDefinition = dbString (get r ''index_definition''),
                             Index_Description = dbString (get r ''description'')\<rparr>])
         | _ \<Rightarrow> Panic)"

definition fetchIndexes ::
  "dbService \<Rightarrow> string \<Rightarrow> string \<Rightarrow> string \<Rightarrow> event list
     \<Rightarrow> IndexInfo list result \<times> event list" where
  "fetchIndexes db connID schemaName tableName log =
     (case dbExecuteQuery db connID QIndexes [schemaName, tableName] log of
        (Inl err, log1) \<Rightarrow> (Err err, log1)
      | (Inr rows, log1) \<Rightarrow> (indexesOfRows rows [], log1))"

fun foreignKeysOfRows :: "row list \<Rightarrow> ForeignKeyInfo list \<Rightarrow> ForeignKeyInfo list result" where
  \<comment> \<open>the loop over the foreign-key rows in \<open>fetchForeignKeys\<close>\<close>
  "foreignKeysOfRows [] foreignKeys = Ok foreignKeys"
| "foreignKeysOfRows (r # rows) foreignKeys =
     (case (assertString (get r ''constraint_name''), assertString (get r ''referenced_schema''),
            assertString (get r ''referenced_table'')) of
        (Some name, Some refSchema, Some refTable) \<Rightarrow>
          foreignKeysOfRows rows
            (foreignKeys @ [\<lparr>ConstraintName = name,
                              FK_Columns = interfaceSliceToStringSlice (get r ''column_names''),
                              ReferencedSchema = refSchema, ReferencedTable = refTable,
                              ReferencedColumns =
                                interfaceSliceToStringSlice (get r ''referenced_columns''),
                              FK_Description = dbString (get r ''description'')\<rparr>])
      | _ \<Rightarrow> Panic)"

definition fetchForeignKeys ::
  "dbService \<Rightarrow> string \<Rightarrow> string \<Rightarrow> string \<Rightarrow> event list
     \<Rightarrow> ForeignKeyInfo list result \<times> event list" where
  "fetchForeignKeys db connID schemaName tableName log =
     (case dbExecuteQuery db connID QForeignKeys [schemaName, tableName] log of
        (Inl err, log1) \<Rightarrow> (Err err, log1)
      | (Inr rows, log1) \<Rightarrow> (foreignKeysOfRows rows [], log1))"

text \<open>
  The two loops of \<open>LoadSchema\<close>. \<open>None\<close> is a panic of a type assertion, which leaves
  the loop and the function; errors of the fetch functions are handled inside the loops.
\<close>

fun loadTables ::
  "dbService \<Rightarrow> string \<Rightarrow> string \<Rightarrow> row list \<Rightarrow> TableInfo list \<Rightarrow> event list
     \<Rightarrow> TableInfo list option \<times> event list" where
  "loadTables db connID schemaName [] tables log = (Some tables, log)"
| "loadTables db connID schemaName (t # ts) tables log =
     (case assertString (get t ''table_name'') of
        None \<Rightarrow> (None, log)
      | Some tableName \<Rightarrow>
         (case fetchColumns db connID schemaName tableName log of
            (Panic, log1) \<Rightarrow> (None, log1)
          | (Err err, log1) \<Rightarrow> loadTables db connID schemaName ts tables log1
          | (Ok columns, log1) \<Rightarrow>
             (case fetchIndexes db connID schemaName tableName log1 of
                (Panic, log2) \<Rightarrow> (None, log2)
              | (indexes, log2) \<Rightarrow>
                 (case fetchForeignKeys db connID schemaName tableName log2 of
                    (Panic, log3) \<Rightarrow> (None, log3)
                  | (foreignKeys, log3) \<Rightarrow>
                     loadTables db connID schemaName ts
                       (tables @ [\<lparr>Table_Name = tableName,
                                    Table_Description = dbString (get t ''description''),
                                    RowCount = dbInt64 (get t ''row_count''),
                                    Columns = columns,
                                    Indexes = (case indexes of Ok is \<Rightarrow> is | _ \<Rightarrow> []),
                                    ForeignKeys = (case foreignKeys of Ok fs \<Rightarrow> fs | _ \<Rightarrow> [])\<rparr>])
                       log3))))"

fun loadSchemas ::
  "dbService \<Rightarrow> string \<Rightarrow> row list \<Rightarrow> SchemaInfo list \<Rightarrow> event list
     \<Rightarrow> SchemaInfo list option \<times> event list" where
  "loadSchemas db connID [] infos log = (Some infos, log)"
| "loadSchemas db connID (s # ss) infos log =
     (case assertString (get s ''schema_name'') of
        None \<Rightarrow> (None, log)
      | Some name \<Rightarrow>
         (case fetchTables db connID name log of
            (Inl err, log1) \<Rightarrow> loadSchemas db connID ss infos log1
          | (Inr tables, log1) \<Rightarrow>
             (case loadTables db connID name tables [] log1 of
                (None, log2) \<Rightarrow> (None, log2)
              | (Some tableInfos, log2) \<Rightarrow>
                 loadSchemas db connID ss
                   (infos @ [\<lparr>Schema_Name = name,
                               Schema_Description = dbString (get s ''description''),
                               Tables = tableInfos\<rparr>])
                   log2)))"

text \<open>
  The manager: \<open>cache\<close> is the pointer \<open>m.cache\<close> (\<open>None\<close> for nil). \<open>LoadSchema\<close> returns
  its result (\<open>Ok ()\<close> for a nil error), the manager, and the log of the call; the log
  starts with the \<open>Lock\<close> of the first statement and ends with the deferred \<open>Unlock\<close>.
\<close>

record manager =
  cache :: "DatabaseInfo option"

definition NewManager :: manager where
  "NewManager = \<lparr>cache = Some \<lparr>Schemas = []\<rparr>\<rparr>"

definition LoadSchema :: "dbService \<Rightarrow> string \<Rightarrow> manager \<Rightarrow> unit result \<times> manager \<times> event list" where
  "LoadSchema db connID m =
     (case fetchSchemas db connID [Lock] of
        (Inl err, log) \<Rightarrow> (Err (FetchSchemasFailed err), m, log @ [Unlock])
      | (Inr schemas, log) \<Rightarrow>
         if length schemas = 0 then (Ok (), m\<lparr>cache := Some \<lparr>Schemas = []\<rparr>\<rparr>, log @ [Unlock])
         else
           (case loadSchemas db connID schemas [] log of
              (None, log') \<Rightarrow> (Panic, m, log' @ [Unlock])
            | (Some infos, log') \<Rightarrow>
               (Ok (), m\<lparr>cache := Some \<lparr>Schemas = infos\<rparr>\<rparr>, log' @ [Unlock])))"

definition GetDatabaseInfo :: "manager \<Rightarrow> DatabaseInfo option \<times> bool" where
  "GetDatabaseInfo m =
     (case cache m of
        None \<Rightarrow> (None, False)
      | Some c \<Rightarrow> if length (Schemas c) = 0 then (None, False) else (Some c, True))"

definition GetSchemaInfo :: "manager \<Rightarrow> string \<Rightarrow> SchemaInfo option \<times> bool" where
  "GetSchemaInfo m schemaName =
     (case cache m of
        None \<Rightarrow> (None, False)
      | Some c \<Rightarrow>
         (case find (\<lambda>s. Schema_Name s = schemaName) (Schemas c) of
            Some s \<Rightarrow> (Some s, True)
          | None \<Rightarrow> (None, False)))"

definition GetTableInfo :: "manager \<Rightarrow> string \<Rightarrow> string \<Rightarrow> TableInfo option \<times> bool" where
  "GetTableInfo m schemaName tableName =
     (case GetSchemaInfo m schemaName of
        (Some schemaInfo, True) \<Rightarrow>
          (case find (\<lambda>t. Table_Name t = tableName) (Tables schemaInfo) of
             Some t \<Rightarrow> (Some t, True)
           | None \<Rightarrow> (None, False))
      | _ \<Rightarrow> (None, False))"


definition resultList :: "'a list result \<Rightarrow> 'a list" where
  "resultList r = (case r of Ok xs \<Rightarrow> xs | _ \<Rightarrow> [])"




text \<open>
  Reading a log: \<open>queriesLocked held log\<close> lists the queries of the log that run while
  the write lock of the cache is held, \<open>held\<close> telling whether it is held at the start.
\<close>

fun queriesLocked :: "bool \<Rightarrow> event list \<Rightarrow> event list" where
  "queriesLocked held [] = []"
| "queriesLocked held (Lock # es) = queriesLocked True es"
| "queriesLocked held (Unlock # es) = queriesLocked False es"
| "queriesLocked held (Query q args # es) =
     (if held then [Query q args] else []) @ queriesLocked held es"

definition isQuery :: "event \<Rightarrow> bool" where
  "isQuery e = (case e of Query q args \<Rightarrow> True | _ \<Rightarrow> False)"

text \<open>Three databases for concrete runs.\<close>

definition db_down :: dbService where
  \<comment> \<open>every query fails\<close>
  "db_down log connID q args = Inl (DriverError ''connection refused'')"

definition db_empty :: dbService where
  \<comment> \<open>the schema query succeeds with no row\<close>
  "db_empty log connID q args = Inr []"

definition public_row :: row where
  "public_row = [''schema_name'' \<mapsto> Str ''public'', ''description'' \<mapsto> Null]"

definition db_tables_fail :: dbService where
  \<comment> \<open>one schema \<open>public\<close>, whose tables cannot be listed\<close>
  "db_tables_fail log connID q args =
     (case q of QSchemas \<Rightarrow> Inr [public_row] | _ \<Rightarrow> Inl (DriverError ''permission denied''))"




definition public_snapshot :: DatabaseInfo where
  \<comment> \<open>a snapshot with the one schema \<open>public\<close> and no table\<close>
  "public_snapshot =
     \<lparr>Schemas = [\<lparr>Schema_Name = ''public'', Schema_Description = [], Tables = []\<rparr>]\<rparr>"

section \<open>Evaluation of the URL functions\<close>

lemmas url_eval =
  url_Parse_def parse_def cut_def cutLast_def strings_HasPrefix_def parseAuthority_def
  parseHost_def validOptionalPort_def validUserinfo_def setPath_def canonicalString_def
  Username_def Hostname_def Port_def splitHostPort_def strings_TrimPrefix_def emptyURL_def
  toLower_def isLetter_def isDigit_def byte_def shouldEscapeHost_def strings_TrimSpace_def
  trimLeftSpace.simps trimRightSpace.simps leadingSpace_def trailingSpace_def spaceRunes_def
  strings_HasSuffix_def

lemma normalize_postgresql_p:
  "normalizeConnectionString ''postgresql://u:p@host/db'' = Inr ''postgresql://u:p@host/db''"
  by (simp add: normalizeConnectionString_def url_eval)

lemma normalize_postgresql_x:
  "normalizeConnectionString ''postgresql://u:x@host/db'' = Inr ''postgresql://u:x@host/db''"
  by (simp add: normalizeConnectionString_def url_eval)

lemma uuid_postgresql_p:
  "ConnectionStringToUUID h ''postgresql://u:p@host/db'' = Inr (h ''u@host:5432/db'')"
  by (simp add: ConnectionStringToUUID_def url_eval)

lemma uuid_postgresql_x:
  "ConnectionStringToUUID h ''postgresql://u:x@host/db'' = Inr (h ''u@host:5432/db'')"
  by (simp add: ConnectionStringToUUID_def url_eval)

lemma normalize_postgres_full:
  "normalizeConnectionString ''postgres://u:p@host:5432/db'' = Inr ''postgres://u:p@host:5432/db''"
  by (simp add: normalizeConnectionString_def url_eval)

lemma normalize_postgres_short:
  "normalizeConnectionString ''postgres://u:x@host/db'' = Inr ''postgres://u:x@host/db''"
  by (simp add: normalizeConnectionString_def url_eval)

lemma uuid_postgres_full:
  "ConnectionStringToUUID h ''postgres://u:p@host:5432/db'' =
     Inr (h ''@postgres:5432//u:p@host:5432/db'')"
  by (simp add: ConnectionStringToUUID_def url_eval)

lemma uuid_postgres_short:
  "ConnectionStringToUUID h ''postgres://u:x@host/db'' = Inr (h ''@postgres:5432//u:x@host/db'')"
  by (simp add: ConnectionStringToUUID_def url_eval)

lemma register_first:
  "RegisterConnection h ''postgresql://u:p@host/db'' NewPgxService =
     (Some (h ''u@host:5432/db'', None),
      \<lparr>connMap = [h ''u@host:5432/db'' \<mapsto> ''postgresql://u:p@host/db''],
       reverseMap = [''postgresql://u:p@host/db'' \<mapsto> h ''u@host:5432/db''],
       pools = Map.empty, poolsCreated = 0, closedPools = {}\<rparr>)"
  by (simp add: RegisterConnection_def normalize_postgresql_p uuid_postgresql_p NewPgxService_def)

section \<open>The registry after shutdown\<close>

lemma GetPool_after_CloseAll:
  "fst (GetPool drv connID (snd (CloseAll s))) = Inl (UnknownConnID connID)"
  by (simp add: GetPool_def CloseAll_def)

lemma Register_after_CloseAll:
  assumes "RegisterConnection h c (snd (CloseAll s)) = (Some (cid, None), s')"
  shows "\<exists>str. s' = (snd (CloseAll s))\<lparr>connMap := [cid \<mapsto> str], reverseMap := [str \<mapsto> cid]\<rparr>"
  using assms
  by (auto simp: RegisterConnection_def CloseAll_def split: sum.splits if_splits)

text \<open>
  C1, as the code has it. \<open>CloseAll\<close> empties \<open>connMap\<close>, so \<open>GetPool\<close> with an identity
  that was registered before fails with the unknown-identity error. Only after the
  connection string is registered again does \<open>GetPool\<close>, called with the identity of that
  registration, construct a new pool (the next allocation), when the driver accepts the
  registered string and the construction succeeds for it.
\<close>

theorem closeAll_forgets_identities:
  assumes "RegisterConnection h c s0 = (Some (cid, None), s1)"
  shows "fst (GetPool drv cid (snd (CloseAll s1))) = Inl (UnknownConnID cid)
       \<and> (\<forall>cid' s2 str. RegisterConnection h c (snd (CloseAll s1)) = (Some (cid', None), s2)
            \<and> connMap s2 cid' = Some str
            \<and> ParseConfig_ok drv str \<and> NewWithConfig_ok drv str
          \<longrightarrow> fst (GetPool drv cid' s2) = Inr (Pool (poolsCreated s1))
            \<and> pools (snd (GetPool drv cid' s2)) = [cid' \<mapsto> Pool (poolsCreated s1)]
            \<and> poolsCreated (snd (GetPool drv cid' s2)) = Suc (poolsCreated s1))"
proof (intro conjI allI impI)
  show "fst (GetPool drv cid (snd (CloseAll s1))) = Inl (UnknownConnID cid)"
    by (rule GetPool_after_CloseAll)
next
  fix cid' s2 str
  assume a: "RegisterConnection h c (snd (CloseAll s1)) = (Some (cid', None), s2)
             \<and> connMap s2 cid' = Some str
             \<and> ParseConfig_ok drv str \<and> NewWithConfig_ok drv str"
  then obtain str' where s2:
    "s2 = (snd (CloseAll s1))\<lparr>connMap := [cid' \<mapsto> str'], reverseMap := [str' \<mapsto> cid']\<rparr>"
    using Register_after_CloseAll by blast
  with a have "str' = str" by simp
  with a s2 have s2': "s2 = (snd (CloseAll s1))\<lparr>connMap := [cid' \<mapsto> str], reverseMap := [str \<mapsto> cid']\<rparr>"
    and ok: "ParseConfig_ok drv str" "NewWithConfig_ok drv str" by simp_all
  show "fst (GetPool drv cid' s2) = Inr (Pool (poolsCreated s1))"
    using ok by (simp add: s2' GetPool_def CloseAll_def Let_def)
  show "pools (snd (GetPool drv cid' s2)) = [cid' \<mapsto> Pool (poolsCreated s1)]"
    using ok by (simp add: s2' GetPool_def CloseAll_def Let_def)
  show "poolsCreated (snd (GetPool drv cid' s2)) = Suc (poolsCreated s1)"
    using ok by (simp add: s2' GetPool_def CloseAll_def Let_def)
qed

lemma register_again_after_closeAll:
  "RegisterConnection h ''postgresql://u:p@host/db''
     (snd (CloseAll \<lparr>connMap = [h ''u@host:5432/db'' \<mapsto> ''postgresql://u:p@host/db''],
                      reverseMap = [''postgresql://u:p@host/db'' \<mapsto> h ''u@host:5432/db''],
                      pools = Map.empty, poolsCreated = 0, closedPools = {}\<rparr>))
   = (Some (h ''u@host:5432/db'', None),
      \<lparr>connMap = [h ''u@host:5432/db'' \<mapsto> ''postgresql://u:p@host/db''],
       reverseMap = [''postgresql://u:p@host/db'' \<mapsto> h ''u@host:5432/db''],
       pools = Map.empty, poolsCreated = 0, closedPools = {}\<rparr>)"
  by (simp add: RegisterConnection_def normalize_postgresql_p uuid_postgresql_p CloseAll_def)

theorem closeAll_forgets_identities_witness:
  "RegisterConnection id ''postgresql://u:p@host/db'' NewPgxService =
     (Some (''u@host:5432/db'', None),
      \<lparr>connMap = [''u@host:5432/db'' \<mapsto> ''postgresql://u:p@host/db''],
       reverseMap = [''postgresql://u:p@host/db'' \<mapsto> ''u@host:5432/db''],
       pools = Map.empty, poolsCreated = 0, closedPools = {}\<rparr>)
   \<and> fst (GetPool (driver_accepting ''postgresql://u:p@host/db'') ''u@host:5432/db''
        (snd (CloseAll \<lparr>connMap = [''u@host:5432/db'' \<mapsto> ''postgresql://u:p@host/db''],
                         reverseMap = [''postgresql://u:p@host/db'' \<mapsto> ''u@host:5432/db''],
                         pools = Map.empty, poolsCreated = 0, closedPools = {}\<rparr>)))
       = Inl (UnknownConnID ''u@host:5432/db'')
   \<and> RegisterConnection id ''postgresql://u:p@host/db''
        (snd (CloseAll \<lparr>connMap = [''u@host:5432/db'' \<mapsto> ''postgresql://u:p@host/db''],
                         reverseMap = [''postgresql://u:p@host/db'' \<mapsto> ''u@host:5432/db''],
                         pools = Map.empty, poolsCreated = 0, closedPools = {}\<rparr>))
       = (Some (''u@host:5432/db'', None),
          \<lparr>connMap = [''u@host:5432/db'' \<mapsto> ''postgresql://u:p@host/db''],
           reverseMap = [''postgresql://u:p@host/db'' \<mapsto> ''u@host:5432/db''],
           pools = Map.empty, poolsCreated = 0, closedPools = {}\<rparr>)
   \<and> ParseConfig_ok (driver_accepting ''postgresql://u:p@host/db'') ''postgresql://u:p@host/db''
   \<and> NewWithConfig_ok (driver_accepting ''postgresql://u:p@host/db'') ''postgresql://u:p@host/db''
   \<and> \<not> ParseConfig_ok (driver_accepting ''postgresql://u:p@host/db'') ''postgresql://u:x@host/db''
   \<and> fst (GetPool (driver_accepting ''postgresql://u:p@host/db'') ''u@host:5432/db''
          \<lparr>connMap = [''u@host:5432/db'' \<mapsto> ''postgresql://u:p@host/db''],
           reverseMap = [''postgresql://u:p@host/db'' \<mapsto> ''u@host:5432/db''],
           pools = Map.empty, poolsCreated = 0, closedPools = {}\<rparr>)
       = Inr (Pool 0)"
proof -
  let ?s1 = "\<lparr>connMap = [''u@host:5432/db'' \<mapsto> ''postgresql://u:p@host/db''],
       reverseMap = [''postgresql://u:p@host/db'' \<mapsto> ''u@host:5432/db''],
       pools = Map.empty, poolsCreated = 0, closedPools = {}\<rparr>"
  let ?drv = "driver_accepting ''postgresql://u:p@host/db''"
  have r: "RegisterConnection id ''postgresql://u:p@host/db'' NewPgxService
      = (Some (''u@host:5432/db'', None), ?s1)"
    using register_first [of id] by simp
  have r2: "RegisterConnection id ''postgresql://u:p@host/db'' (snd (CloseAll ?s1))
      = (Some (''u@host:5432/db'', None), ?s1)"
    using register_again_after_closeAll [of id] by simp
  have d: "ParseConfig_ok ?drv ''postgresql://u:p@host/db''"
    "NewWithConfig_ok ?drv ''postgresql://u:p@host/db''"
    "\<not> ParseConfig_ok ?drv ''postgresql://u:x@host/db''"
    by (simp_all add: driver_accepting_def)
  have c: "connMap ?s1 ''u@host:5432/db'' = Some ''postgresql://u:p@host/db''" by simp
  note t = closeAll_forgets_identities [OF r, of ?drv]
  from t have first: "fst (GetPool ?drv ''u@host:5432/db'' (snd (CloseAll ?s1)))
      = Inl (UnknownConnID ''u@host:5432/db'')" by blast
  from t r2 c d have "fst (GetPool ?drv ''u@host:5432/db'' ?s1) = Inr (Pool (poolsCreated ?s1))"
    by blast
  then have second: "fst (GetPool ?drv ''u@host:5432/db'' ?s1) = Inr (Pool 0)" by simp
  from r first r2 d second show ?thesis by blast
qed

text \<open>
  C1 as stated fails: the identity \<open>u@host:5432/db\<close> (the hash is replaced by the
  identity function, the outcome does not depend on it) is registered on the fresh
  service, \<open>CloseAll\<close> runs, and \<open>GetPool\<close> with that identity does not succeed although
  the driver would construct every pool.
\<close>

theorem getPool_after_closeAll_counterexample:
  "fst (RegisterConnection id ''postgresql://u:p@host/db'' NewPgxService)
     = Some (''u@host:5432/db'', None)
   \<and> fst (GetPool driver_ok ''u@host:5432/db''
        (snd (CloseAll (snd (RegisterConnection id ''postgresql://u:p@host/db'' NewPgxService)))))
     = Inl (UnknownConnID ''u@host:5432/db'')"
  by (simp add: register_first GetPool_def CloseAll_def)

section \<open>Blank connection strings\<close>

lemma spaceRunes_shape:
  "e \<in> set spaceRunes \<Longrightarrow>
     e \<noteq> [] \<and> length e = (if byte (hd e) < 128 then 1 else if hd e = CHR 0xC2 then 2 else 3)"
  by (auto simp: spaceRunes_def byte_def)

lemma leadingSpace_rune:
  assumes "e \<in> set spaceRunes"
  shows "leadingSpace (e @ t) = length e"
proof -
  from assms have e: "e \<noteq> []" by (simp add: spaceRunes_shape)
  have "strings_HasPrefix (e @ t) e" by (simp add: strings_HasPrefix_def)
  with assms have "find (strings_HasPrefix (e @ t)) spaceRunes \<noteq> None"
    by (auto simp: find_None_iff)
  then obtain e' where f: "find (strings_HasPrefix (e @ t)) spaceRunes = Some e'" by auto
  then have e': "e' \<in> set spaceRunes" "strings_HasPrefix (e @ t) e'"
    by (auto simp: find_Some_iff)
  then have "e' \<noteq> []" by (simp add: spaceRunes_shape)
  with e'(2) e have "hd e' = hd e"
    by (cases e'; cases e) (auto simp: strings_HasPrefix_def)
  with spaceRunes_shape [OF assms] spaceRunes_shape [OF e'(1)] have "length e' = length e"
    by simp
  with f show ?thesis by (simp add: leadingSpace_def)
qed

lemma trimLeftSpace_rune:
  assumes "e \<in> set spaceRunes"
  shows "trimLeftSpace (e @ t) = trimLeftSpace t"
proof -
  from assms have "e \<noteq> []" by (simp add: spaceRunes_shape)
  then show ?thesis
    by (subst trimLeftSpace.simps) (simp add: leadingSpace_rune [OF assms])
qed

lemma trimLeftSpace_Nil: "trimLeftSpace [] = []"
  by (subst trimLeftSpace.simps) simp

lemma trimRightSpace_Nil: "trimRightSpace [] = []"
  by (subst trimRightSpace.simps) simp

lemma trimLeftSpace_runes: "set rs \<subseteq> set spaceRunes \<Longrightarrow> trimLeftSpace (concat rs) = []"
  by (induction rs) (simp_all add: trimLeftSpace_Nil trimLeftSpace_rune)

lemma TrimSpace_whiteSpaceOnly: "whiteSpaceOnly s \<Longrightarrow> strings_TrimSpace s = []"
  by (auto simp: whiteSpaceOnly_def strings_TrimSpace_def trimLeftSpace_runes trimRightSpace_Nil)

text \<open>
  C10. A connection string that is empty or consists of white space only (any sequence
  of the white-space runes of \<open>strings.TrimSpace\<close>, the Unicode ones included) makes
  \<open>RegisterConnection\<close> return the empty identity with an error, and the service (both
  registry maps included) is returned unchanged.
\<close>

theorem register_blank_fails:
  "whiteSpaceOnly connString \<Longrightarrow>
     RegisterConnection NewSHA1 connString s = (Some ([], Some EmptyConnString), s)"
  by (simp add: RegisterConnection_def normalizeConnectionString_def TrimSpace_whiteSpaceOnly)

theorem register_blank_fails_witness:
  "whiteSpaceOnly [CHR 0x20, CHR 0xC2, CHR 0xA0, CHR 0x09, CHR 0xE2, CHR 0x80, CHR 0x83]
   \<and> RegisterConnection id [CHR 0x20, CHR 0xC2, CHR 0xA0, CHR 0x09, CHR 0xE2, CHR 0x80, CHR 0x83]
         NewPgxService
       = (Some ([], Some EmptyConnString), NewPgxService)
   \<and> whiteSpaceOnly []
   \<and> RegisterConnection id [] NewPgxService = (Some ([], Some EmptyConnString), NewPgxService)"
proof -
  have a: "whiteSpaceOnly [CHR 0x20, CHR 0xC2, CHR 0xA0, CHR 0x09, CHR 0xE2, CHR 0x80, CHR 0x83]"
    unfolding whiteSpaceOnly_def
    by (rule exI [of _ "[[CHR 0x20], [CHR 0xC2, CHR 0xA0], [CHR 0x09], [CHR 0xE2, CHR 0x80, CHR 0x83]]"])
      (simp add: spaceRunes_def)
  have b: "whiteSpaceOnly []"
    unfolding whiteSpaceOnly_def by (rule exI [of _ "[]"]) simp
  show ?thesis
    using a b register_blank_fails [OF a, of id NewPgxService]
      register_blank_fails [OF b, of id NewPgxService] by simp
qed

section \<open>The two registry maps\<close>






lemma run_two_passwords:
  "run_ops h [Register ''postgresql://u:p@host/db'', Register ''postgresql://u:x@host/db''] =
     \<lparr>connMap = [h ''u@host:5432/db'' \<mapsto> ''postgresql://u:x@host/db''],
      reverseMap = [''postgresql://u:p@host/db'' \<mapsto> h ''u@host:5432/db'',
                    ''postgresql://u:x@host/db'' \<mapsto> h ''u@host:5432/db''],
      pools = Map.empty, poolsCreated = 0, closedPools = {}\<rparr>"
  by (simp add: run_ops_def RegisterConnection_def normalize_postgresql_p normalize_postgresql_x
      uuid_postgresql_p uuid_postgresql_x NewPgxService_def)









text \<open>
  What the invariant above leaves open. \<open>DisconnectConnection\<close> removes the reverse entry
  of the one string that \<open>connMap\<close> holds for the identity. When another spelling of the
  same identity was registered before, its reverse entry stays behind: registering that
  spelling again returns the identity without storing it in \<open>connMap\<close>, and \<open>GetPool\<close> then
  rejects the identity that was just returned.
\<close>

lemma stale_reverse_entry_after_disconnect:
  "reverseMap (run_ops h [Register ''postgresql://u:p@host/db'', Register ''postgresql://u:x@host/db'',
                          Disconnect (h ''u@host:5432/db'')])
      ''postgresql://u:p@host/db'' = Some (h ''u@host:5432/db'')
   \<and> connMap (run_ops h [Register ''postgresql://u:p@host/db'', Register ''postgresql://u:x@host/db'',
                          Disconnect (h ''u@host:5432/db'')])
      (h ''u@host:5432/db'') = None
   \<and> fst (RegisterConnection h ''postgresql://u:p@host/db''
           (run_ops h [Register ''postgresql://u:p@host/db'', Register ''postgresql://u:x@host/db'',
                       Disconnect (h ''u@host:5432/db'')]))
       = Some (h ''u@host:5432/db'', None)
   \<and> fst (GetPool drv (h ''u@host:5432/db'')
           (snd (RegisterConnection h ''postgresql://u:p@host/db''
             (run_ops h [Register ''postgresql://u:p@host/db'', Register ''postgresql://u:x@host/db'',
                         Disconnect (h ''u@host:5432/db'')]))))
       = Inl (UnknownConnID (h ''u@host:5432/db''))"
proof -
  have run3: "run_ops h [Register ''postgresql://u:p@host/db'', Register ''postgresql://u:x@host/db'',
                         Disconnect (h ''u@host:5432/db'')]
      = snd (DisconnectConnection (h ''u@host:5432/db'')
          (run_ops h [Register ''postgresql://u:p@host/db'', Register ''postgresql://u:x@host/db'']))"
    by (simp add: run_ops_def)
  show ?thesis
    unfolding run3 run_two_passwords
    by (simp add: DisconnectConnection_def RegisterConnection_def GetPool_def
        normalize_postgresql_p Let_def)
qed

section \<open>Identities of equivalent connection strings\<close>

lemma canonicalString_password:
  "canonicalString (u\<lparr>User := Some (name, pw)\<rparr>) = canonicalString (u\<lparr>User := Some (name, pw')\<rparr>)"
  by (simp add: canonicalString_def Username_def Hostname_def Port_def)

lemma uuid_postgresql_explicit_port:
  "ConnectionStringToUUID h ''postgresql://u:p@host:5432/db'' = Inr (h ''u@host:5432/db'')"
  by (simp add: ConnectionStringToUUID_def url_eval)

text \<open>
  With the prefix \<open>postgresql://\<close> the resolver does what it is written for: the
  password is left out and the default port is filled in.
\<close>

lemma uuid_postgresql_same_target:
  "ConnectionStringToUUID h ''postgresql://u:p@host:5432/db''
     = ConnectionStringToUUID h ''postgresql://u:x@host/db''"
  by (simp only: uuid_postgresql_explicit_port uuid_postgresql_x)

text \<open>
  C4 at its failing input. The connection strings \<open>postgres://u:p@host/db\<close> and
  \<open>postgres://u:x@host/db\<close> differ only in the password. \<open>ConnectionStringToUUID\<close> tests
  for the prefix \<open>postgresql://\<close> only, puts it in front of the whole string, and the
  parser then reads \<open>postgres\<close> as the host and the rest, password included, as the path:
  the two strings hashed are different.
\<close>

theorem uuid_depends_on_password:
  "ConnectionStringToUUID h ''postgres://u:p@host/db'' = Inr (h ''@postgres:5432//u:p@host/db'')
   \<and> ConnectionStringToUUID h ''postgres://u:x@host/db'' = Inr (h ''@postgres:5432//u:x@host/db'')
   \<and> ''@postgres:5432//u:p@host/db'' \<noteq> ''@postgres:5432//u:x@host/db''"
  by (simp add: ConnectionStringToUUID_def url_eval)

theorem uuid_depends_on_password_witness:
  "ConnectionStringToUUID id ''postgres://u:p@host/db''
     \<noteq> ConnectionStringToUUID id ''postgres://u:x@host/db''"
  using uuid_depends_on_password [of id] by simp

text \<open>
  C3 at its failing input, the scenario of the specification. Registering
  \<open>postgres://u:p@host:5432/db\<close> and then \<open>postgres://u:x@host/db\<close> on a fresh service
  returns the hashes of two different strings, and the registry then holds two identities
  for the one logical target.
\<close>

theorem register_equivalent_strings_differ:
  "fst (RegisterConnection h ''postgres://u:p@host:5432/db'' NewPgxService)
     = Some (h ''@postgres:5432//u:p@host:5432/db'', None)
   \<and> fst (RegisterConnection h ''postgres://u:x@host/db''
        (snd (RegisterConnection h ''postgres://u:p@host:5432/db'' NewPgxService)))
     = Some (h ''@postgres:5432//u:x@host/db'', None)
   \<and> ''@postgres:5432//u:p@host:5432/db'' \<noteq> ''@postgres:5432//u:x@host/db''"
  by (simp add: RegisterConnection_def normalize_postgres_full normalize_postgres_short
      uuid_postgres_full uuid_postgres_short NewPgxService_def)

theorem register_equivalent_strings_differ_witness:
  "fst (RegisterConnection id ''postgres://u:p@host:5432/db'' NewPgxService)
     \<noteq> fst (RegisterConnection id ''postgres://u:x@host/db''
          (snd (RegisterConnection id ''postgres://u:p@host:5432/db'' NewPgxService)))"
  using register_equivalent_strings_differ [of id] by simp

section \<open>Result rows of the executor\<close>

lemma rowMap_Some:
  "length fds \<le> length vs \<Longrightarrow>
     rowMap fds vs m = Some (m ++ map_of (rev (zip fds vs)))"
proof (induction fds vs m rule: rowMap.induct)
  case (1 vs m)
  show ?case by simp
next
  case (2 fd fds m)
  then show ?case by simp
next
  case (3 fd fds v vs m)
  from "3.prems" have "length fds \<le> length vs" by simp
  from "3.IH" [OF this]
  have "rowMap fds vs (m(fd \<mapsto> v)) = Some (m(fd \<mapsto> v) ++ map_of (rev (zip fds vs)))" .
  moreover have "m(fd \<mapsto> v) ++ map_of (rev (zip fds vs))
      = m ++ map_of (rev (zip (fd # fds) (v # vs)))"
    by (rule ext) (simp add: map_add_def split: option.splits)
  ultimately show ?case by (simp only: rowMap.simps)
qed

lemma rowMap_None: "length vs < length fds \<Longrightarrow> rowMap fds vs m = None"
  by (induction fds vs m rule: rowMap.induct) simp_all

lemma rowsLoop_Ok:
  "rowsLoop fds rs acc = Ok results \<Longrightarrow>
     \<exists>vals. rs = map Inr vals
       \<and> (\<forall>vs \<in> set vals. length fds \<le> length vs)
       \<and> results = acc @ map (\<lambda>vs. map_of (rev (zip fds vs))) vals"
proof (induction fds rs acc rule: rowsLoop.induct)
  case (1 fds acc)
  then show ?case by simp
next
  case (2 fds err rest acc)
  then show ?case by simp
next
  case (3 fds vs rest acc)
  show ?case
  proof (cases "length fds \<le> length vs")
    case False
    then have "rowMap fds vs Map.empty = None" by (simp add: rowMap_None)
    with "3.prems" show ?thesis by simp
  next
    case True
    then have m: "rowMap fds vs Map.empty = Some (map_of (rev (zip fds vs)))"
      by (simp add: rowMap_Some)
    with "3.prems" have "rowsLoop fds rest (acc @ [map_of (rev (zip fds vs))]) = Ok results"
      by simp
    from "3.IH" [OF m this] obtain vals where v:
      "rest = map Inr vals" "\<forall>vs \<in> set vals. length fds \<le> length vs"
      "results = (acc @ [map_of (rev (zip fds vs))])
                   @ map (\<lambda>vs. map_of (rev (zip fds vs))) vals"
      by blast
    show ?thesis
    proof (intro exI [of _ "vs # vals"] conjI)
      show "Inr vs # rest = map Inr (vs # vals)" using v(1) by simp
      show "\<forall>vs \<in> set (vs # vals). length fds \<le> length vs"
        using v(2) True by simp
      show "results = acc @ map (\<lambda>vs. map_of (rev (zip fds vs))) (vs # vals)"
        using v(3) by simp
    qed
  qed
qed

lemma executeQueryInternal_Ok:
  assumes "executeQueryInternal call = Ok results"
  shows "\<exists>rows vals. Query_result call = Inr rows \<and> rowValues rows = map Inr vals
           \<and> (\<forall>vs \<in> set vals. length (FieldDescriptions rows) \<le> length vs)
           \<and> results = map (\<lambda>vs. map_of (rev (zip (FieldDescriptions rows) vs))) vals"
proof -
  from assms obtain rows where q: "Query_result call = Inr rows"
    and r: "rowsToMaps rows = Ok results"
    by (auto simp: executeQueryInternal_def split: option.splits sum.splits result.splits)
  from r have "rowsLoop (FieldDescriptions rows) (rowValues rows) [] = Ok results"
    by (auto simp: rowsToMaps_def split: result.splits option.splits)
  from rowsLoop_Ok [OF this] q show ?thesis by auto
qed

lemma executeQueryInternal_two_columns:
  "executeQueryInternal two_columns = Ok [[''id'' \<mapsto> Int64 1, ''name'' \<mapsto> Str ''a'']]"
  by (simp add: executeQueryInternal_def two_columns_def rowsToMaps_def)

lemma executeQueryInternal_two_columns_swapped:
  "executeQueryInternal two_columns_swapped = Ok [[''name'' \<mapsto> Str ''a'', ''id'' \<mapsto> Int64 1]]"
  by (simp add: executeQueryInternal_def two_columns_swapped_def rowsToMaps_def)

lemma two_columns_same_row:
  "[''id'' \<mapsto> Int64 1, ''name'' \<mapsto> Str ''a''] = [''name'' \<mapsto> Str ''a'', ''id'' \<mapsto> Int64 1]"
  by (rule ext) simp

text \<open>
  C2, as the code has it. A row is a Go map, which has no order. In every successful
  \<open>ExecuteQuery\<close> call there is one returned row per row of the driver, in the driver's row
  order, and each returned row maps every column name to the value of the last column
  of that name; the order of the columns is not part of the result.
\<close>

theorem executeQuery_rows_are_maps:
  assumes "fst (ExecuteQuery drv pgx connID readOnly sql args s) = Ok results"
  shows "\<exists>p rows vals. fst (GetPool drv connID s) = Inr p
           \<and> Query_result (pgx p readOnly sql args) = Inr rows
           \<and> rowValues rows = map Inr vals
           \<and> (\<forall>vs \<in> set vals. length (FieldDescriptions rows) \<le> length vs)
           \<and> results = map (\<lambda>vs. map_of (rev (zip (FieldDescriptions rows) vs))) vals"
proof -
  from assms obtain p where p: "fst (GetPool drv connID s) = Inr p"
    and e: "executeQueryInternal (pgx p readOnly sql args) = Ok results"
    by (auto simp: ExecuteQuery_def split: prod.splits sum.splits)
  from executeQueryInternal_Ok [OF e] p show ?thesis by blast
qed

theorem executeQuery_rows_are_maps_witness:
  "fst (ExecuteQuery driver_ok (\<lambda>p readOnly sql args. two_columns) ''u@host:5432/db'' True
          ''select id, name from t'' []
          (snd (RegisterConnection id ''postgresql://u:p@host/db'' NewPgxService)))
     = Ok [[''id'' \<mapsto> Int64 1, ''name'' \<mapsto> Str ''a'']]
   \<and> (\<exists>p rows vals.
         fst (GetPool driver_ok ''u@host:5432/db''
                (snd (RegisterConnection id ''postgresql://u:p@host/db'' NewPgxService))) = Inr p
       \<and> Query_result two_columns = Inr rows
       \<and> rowValues rows = map Inr vals
       \<and> (\<forall>vs \<in> set vals. length (FieldDescriptions rows) \<le> length vs)
       \<and> [[''id'' \<mapsto> Int64 1, ''name'' \<mapsto> Str ''a'']]
           = map (\<lambda>vs. map_of (rev (zip (FieldDescriptions rows) vs))) vals)"
proof -
  have e: "fst (ExecuteQuery driver_ok (\<lambda>p readOnly sql args. two_columns) ''u@host:5432/db'' True
          ''select id, name from t'' []
          (snd (RegisterConnection id ''postgresql://u:p@host/db'' NewPgxService)))
     = Ok [[''id'' \<mapsto> Int64 1, ''name'' \<mapsto> Str ''a'']]"
    using register_first [of id]
    by (simp add: ExecuteQuery_def GetPool_def driver_ok_def Let_def
        executeQueryInternal_two_columns)
  from e executeQuery_rows_are_maps [OF e] show ?thesis by (rule conjI)
qed

text \<open>
  C2 as stated fails: the driver returns the columns \<open>id\<close>, \<open>name\<close> in one call and
  \<open>name\<close>, \<open>id\<close> in the other, and the two results are equal, so the returned rows do not
  hold the driver's column order.
\<close>

theorem executeQuery_column_order_counterexample:
  "executeQueryInternal two_columns = executeQueryInternal two_columns_swapped
   \<and> map FieldDescriptions (projr (Query_result two_columns) # []) = [[''id'', ''name'']]
   \<and> map FieldDescriptions (projr (Query_result two_columns_swapped) # []) = [[''name'', ''id'']]"
proof (intro conjI)
  show "executeQueryInternal two_columns = executeQueryInternal two_columns_swapped"
    by (simp only: executeQueryInternal_two_columns executeQueryInternal_two_columns_swapped
        two_columns_same_row)
  show "map FieldDescriptions (projr (Query_result two_columns) # []) = [[''id'', ''name'']]"
    by (simp add: two_columns_def)
  show "map FieldDescriptions (projr (Query_result two_columns_swapped) # []) = [[''name'', ''id'']]"
    by (simp add: two_columns_swapped_def)
qed

section \<open>The log of a crawl\<close>

lemma dbExecuteQuery_log:
  "snd (dbExecuteQuery db connID q args log) = log @ [Query q args]"
  by (simp add: dbExecuteQuery_def)

lemma fetchColumns_log:
  "\<exists>qs. snd (fetchColumns db connID schemaName tableName log) = log @ qs \<and> list_all isQuery qs"
  by (auto simp: fetchColumns_def fetchConstraintsForTable_def dbExecuteQuery_def isQuery_def
      split: sum.splits)

lemma fetchIndexes_log:
  "\<exists>qs. snd (fetchIndexes db connID schemaName tableName log) = log @ qs \<and> list_all isQuery qs"
  by (auto simp: fetchIndexes_def dbExecuteQuery_def isQuery_def split: sum.splits)

lemma fetchForeignKeys_log:
  "\<exists>qs. snd (fetchForeignKeys db connID schemaName tableName log) = log @ qs \<and> list_all isQuery qs"
  by (auto simp: fetchForeignKeys_def dbExecuteQuery_def isQuery_def split: sum.splits)

lemma loadTables_log:
  "\<exists>qs. snd (loadTables db connID schemaName ts tables log) = log @ qs \<and> list_all isQuery qs"
proof (induction ts arbitrary: tables log)
  case Nil
  show ?case by simp
next
  case (Cons t ts)
  show ?case
  proof (cases "assertString (get t ''table_name'')")
    case None
    then show ?thesis by simp
  next
    case (Some tableName)
    obtain rc log1 where c: "fetchColumns db connID schemaName tableName log = (rc, log1)"
      by (cases "fetchColumns db connID schemaName tableName log")
    obtain q1 where q1: "log1 = log @ q1" "list_all isQuery q1"
      using fetchColumns_log [of db connID schemaName tableName log] c by auto
    obtain ri log2 where i: "fetchIndexes db connID schemaName tableName log1 = (ri, log2)"
      by (cases "fetchIndexes db connID schemaName tableName log1")
    obtain q2 where q2: "log2 = log1 @ q2" "list_all isQuery q2"
      using fetchIndexes_log [of db connID schemaName tableName log1] i by auto
    obtain rf log3 where f: "fetchForeignKeys db connID schemaName tableName log2 = (rf, log3)"
      by (cases "fetchForeignKeys db connID schemaName tableName log2")
    obtain q3 where q3: "log3 = log2 @ q3" "list_all isQuery q3"
      using fetchForeignKeys_log [of db connID schemaName tableName log2] f by auto
    have step: "\<exists>qs. snd (loadTables db connID schemaName ts tables' (log @ q)) = log @ qs
                  \<and> list_all isQuery qs" if "list_all isQuery q" for tables' q
    proof -
      from Cons.IH [of tables' "log @ q"] obtain qs' where
        "snd (loadTables db connID schemaName ts tables' (log @ q)) = (log @ q) @ qs'"
        "list_all isQuery qs'" by blast
      with that show ?thesis by (intro exI [of _ "q @ qs'"]) simp
    qed
    show ?thesis
    proof (cases rc)
      case Panic
      with Some c q1 show ?thesis by auto
    next
      case (Err err)
      with Some c q1 step [of q1] show ?thesis by simp
    next
      case (Ok columns)
      have l3: "log3 = log @ (q1 @ q2 @ q3)" "list_all isQuery (q1 @ q2 @ q3)"
        using q1 q2 q3 by simp_all
      show ?thesis
      proof (cases "ri = Panic")
        case True
        with Some c Ok i q1 q2 show ?thesis
          by (intro exI [of _ "q1 @ q2"]) simp
      next
        case ri: False
        show ?thesis
        proof (cases "rf = Panic")
          case True
          with Some c Ok i f ri l3 show ?thesis
            by (intro exI [of _ "q1 @ q2 @ q3"]) (simp split: result.splits)
        next
          case False
          with Some c Ok i f ri l3(1) step [OF l3(2)] show ?thesis
            by (simp split: result.splits)
        qed
      qed
    qed
  qed
qed

lemma loadSchemas_log:
  "\<exists>qs. snd (loadSchemas db connID ss infos log) = log @ qs \<and> list_all isQuery qs"
proof (induction ss arbitrary: infos log)
  case Nil
  show ?case by simp
next
  case (Cons s ss)
  show ?case
  proof (cases "assertString (get s ''schema_name'')")
    case None
    then show ?thesis by simp
  next
    case (Some name)
    have step: "\<exists>qs. snd (loadSchemas db connID ss infos' (log @ q)) = log @ qs
                  \<and> list_all isQuery qs" if "list_all isQuery q" for infos' q
    proof -
      from Cons.IH [of infos' "log @ q"] obtain qs' where
        "snd (loadSchemas db connID ss infos' (log @ q)) = (log @ q) @ qs'"
        "list_all isQuery qs'" by blast
      with that show ?thesis by (intro exI [of _ "q @ qs'"]) simp
    qed
    have q0: "list_all isQuery [Query QTables [name]]" by (simp add: isQuery_def)
    show ?thesis
    proof (cases "db log connID QTables [name]")
      case (Inl err)
      with Some step [OF q0] show ?thesis
        by (simp add: fetchTables_def dbExecuteQuery_def)
    next
      case (Inr tables)
      obtain rt log2 where t:
        "loadTables db connID name tables [] (log @ [Query QTables [name]]) = (rt, log2)"
        by (cases "loadTables db connID name tables [] (log @ [Query QTables [name]])")
      obtain q2 where q2: "log2 = (log @ [Query QTables [name]]) @ q2" "list_all isQuery q2"
        using loadTables_log [of db connID name tables "[]" "log @ [Query QTables [name]]"] t
        by auto
      have l2: "log2 = log @ (Query QTables [name] # q2)" "list_all isQuery (Query QTables [name] # q2)"
        using q2 q0 by simp_all
      show ?thesis
      proof (cases rt)
        case None
        with Some Inr t l2 show ?thesis
          by (intro exI [of _ "Query QTables [name] # q2"])
            (simp add: fetchTables_def dbExecuteQuery_def)
      next
        case (Some tableInfos)
        with \<open>assertString (get s ''schema_name'') = Some name\<close> Inr t l2(1) step [OF l2(2)]
        show ?thesis
          by (simp add: fetchTables_def dbExecuteQuery_def)
      qed
    qed
  qed
qed

lemma LoadSchema_log:
  "\<exists>qs. snd (snd (LoadSchema db connID m)) = Lock # Query QSchemas [] # qs @ [Unlock]
        \<and> list_all isQuery qs"
proof (cases "db [Lock] connID QSchemas []")
  case (Inl err)
  then show ?thesis
    by (simp add: LoadSchema_def fetchSchemas_def dbExecuteQuery_def)
next
  case (Inr schemas)
  obtain r log' where l: "loadSchemas db connID schemas [] [Lock, Query QSchemas []] = (r, log')"
    by (cases "loadSchemas db connID schemas [] [Lock, Query QSchemas []]")
  obtain qs where qs: "log' = [Lock, Query QSchemas []] @ qs" "list_all isQuery qs"
    using loadSchemas_log [of db connID schemas "[]" "[Lock, Query QSchemas []]"] l by auto
  show ?thesis
  proof (cases "schemas = []")
    case True
    with Inr show ?thesis
      by (simp add: LoadSchema_def fetchSchemas_def dbExecuteQuery_def)
  next
    case False
    with Inr l qs show ?thesis
      by (intro exI [of _ qs])
        (simp add: LoadSchema_def fetchSchemas_def dbExecuteQuery_def split: option.splits)
  qed
qed

lemma queriesLocked_queries:
  "list_all isQuery qs \<Longrightarrow> queriesLocked True (qs @ [Unlock]) = qs"
proof (induction qs)
  case Nil
  show ?case by simp
next
  case (Cons e qs)
  then show ?case by (cases e) (simp_all add: isQuery_def)
qed

section \<open>Locking during a crawl\<close>

text \<open>
  C7, as the code has it. \<open>LoadSchema\<close> takes the write lock of the cache as its first
  step and releases it when it returns: the log of a call is \<open>Lock\<close>, then the schema
  query and every other catalog query of the crawl, then \<open>Unlock\<close>, so all catalog
  queries run while the write lock is held.
\<close>

theorem loadSchema_queries_under_lock:
  "\<exists>qs. snd (snd (LoadSchema db connID m)) = Lock # Query QSchemas [] # qs @ [Unlock]
        \<and> list_all isQuery qs
        \<and> queriesLocked False (snd (snd (LoadSchema db connID m))) = Query QSchemas [] # qs"
proof -
  from LoadSchema_log [of db connID m] obtain qs where
    l: "snd (snd (LoadSchema db connID m)) = Lock # Query QSchemas [] # qs @ [Unlock]"
    and q: "list_all isQuery qs" by blast
  from q have "queriesLocked True (qs @ [Unlock]) = qs" by (rule queriesLocked_queries)
  with l q show ?thesis by simp
qed

lemma LoadSchema_db_tables_fail:
  "LoadSchema db_tables_fail connID m =
     (Ok (), m\<lparr>cache := Some \<lparr>Schemas = []\<rparr>\<rparr>,
      [Lock, Query QSchemas [], Query QTables [''public''], Unlock])"
  by (simp add: LoadSchema_def fetchSchemas_def fetchTables_def dbExecuteQuery_def
      db_tables_fail_def public_row_def assertString_def get_def)

theorem loadSchema_queries_under_lock_witness:
  "queriesLocked False (snd (snd (LoadSchema db_tables_fail ''c1'' NewManager)))
     = [Query QSchemas [], Query QTables [''public'']]"
  using loadSchema_queries_under_lock [of db_tables_fail "''c1''" NewManager]
  by (simp add: LoadSchema_db_tables_fail)

lemma LoadSchema_db_down:
  "LoadSchema db_down connID m =
     (Err (FetchSchemasFailed (DriverError ''connection refused'')), m,
      [Lock, Query QSchemas [], Unlock])"
  by (simp add: LoadSchema_def fetchSchemas_def dbExecuteQuery_def db_down_def)

text \<open>
  C7 as stated fails: in the shortest crawl, on a database that refuses every query, the
  schema query is run between \<open>Lock\<close> and \<open>Unlock\<close>.
\<close>

theorem loadSchema_lock_scope_counterexample:
  "snd (snd (LoadSchema db_down ''c1'' NewManager)) = [Lock, Query QSchemas [], Unlock]
   \<and> queriesLocked False (snd (snd (LoadSchema db_down ''c1'' NewManager))) \<noteq> []"
  by (simp add: LoadSchema_db_down)

section \<open>Failures during a crawl\<close>

lemma loadSchemas_never_fails_with_error:
  "fst (LoadSchema db connID m) = Err e \<Longrightarrow>
     \<exists>err. db [Lock] connID QSchemas [] = Inl err \<and> e = FetchSchemasFailed err"
  by (auto simp: LoadSchema_def fetchSchemas_def dbExecuteQuery_def
      split: sum.splits if_splits prod.splits option.splits)






lemma resultList_case: "r \<noteq> Panic \<Longrightarrow> (case r of Ok xs \<Rightarrow> xs | _ \<Rightarrow> []) = resultList r"
  by (simp add: resultList_def)





text \<open>
  The single steps of the two loops, for any database, also one whose answers change
  during the crawl.
\<close>

lemma crawl_loop_steps:
  "(db [Lock] connID QSchemas [] = Inl err \<longrightarrow>
      LoadSchema db connID m
        = (Err (FetchSchemasFailed err), m, [Lock, Query QSchemas [], Unlock]))
   \<and> (fst (LoadSchema db connID m) = Err e \<longrightarrow>
        (\<exists>err'. db [Lock] connID QSchemas [] = Inl err' \<and> e = FetchSchemasFailed err'))
   \<and> (assertString (get s ''schema_name'') = Some name
        \<and> db log connID QTables [name] = Inl errT \<longrightarrow>
        loadSchemas db connID (s # ss) infos log
          = loadSchemas db connID ss infos (log @ [Query QTables [name]]))
   \<and> (assertString (get t ''table_name'') = Some tableName
        \<and> db log connID QColumns [schemaName, tableName] = Inl errC \<longrightarrow>
        loadTables db connID schemaName (t # ts) tables log
          = loadTables db connID schemaName ts tables
              (log @ [Query QColumns [schemaName, tableName]]))
   \<and> (assertString (get t ''table_name'') = Some tableName
        \<and> fetchColumns db connID schemaName tableName log = (Ok columns, logc)
        \<and> fetchIndexes db connID schemaName tableName logc = (indexes, logi)
        \<and> indexes \<noteq> Panic
        \<and> fetchForeignKeys db connID schemaName tableName logi = (foreignKeys, logf)
        \<and> foreignKeys \<noteq> Panic \<longrightarrow>
        loadTables db connID schemaName (t # ts) tables log
          = loadTables db connID schemaName ts
              (tables @ [\<lparr>Table_Name = tableName,
                           Table_Description = dbString (get t ''description''),
                           RowCount = dbInt64 (get t ''row_count''),
                           Columns = columns,
                           Indexes = (case indexes of Ok is \<Rightarrow> is | _ \<Rightarrow> []),
                           ForeignKeys = (case foreignKeys of Ok fs \<Rightarrow> fs | _ \<Rightarrow> [])\<rparr>])
              logf)"
proof (intro conjI impI)
  assume "db [Lock] connID QSchemas [] = Inl err"
  then show "LoadSchema db connID m
        = (Err (FetchSchemasFailed err), m, [Lock, Query QSchemas [], Unlock])"
    by (simp add: LoadSchema_def fetchSchemas_def dbExecuteQuery_def)
next
  assume "fst (LoadSchema db connID m) = Err e"
  then show "\<exists>err'. db [Lock] connID QSchemas [] = Inl err' \<and> e = FetchSchemasFailed err'"
    by (rule loadSchemas_never_fails_with_error)
next
  assume "assertString (get s ''schema_name'') = Some name
        \<and> db log connID QTables [name] = Inl errT"
  then show "loadSchemas db connID (s # ss) infos log
          = loadSchemas db connID ss infos (log @ [Query QTables [name]])"
    by (simp add: fetchTables_def dbExecuteQuery_def)
next
  assume "assertString (get t ''table_name'') = Some tableName
        \<and> db log connID QColumns [schemaName, tableName] = Inl errC"
  then show "loadTables db connID schemaName (t # ts) tables log
          = loadTables db connID schemaName ts tables
              (log @ [Query QColumns [schemaName, tableName]])"
    by (simp add: fetchColumns_def dbExecuteQuery_def)
next
  assume a: "assertString (get t ''table_name'') = Some tableName
        \<and> fetchColumns db connID schemaName tableName log = (Ok columns, logc)
        \<and> fetchIndexes db connID schemaName tableName logc = (indexes, logi)
        \<and> indexes \<noteq> Panic
        \<and> fetchForeignKeys db connID schemaName tableName logi = (foreignKeys, logf)
        \<and> foreignKeys \<noteq> Panic"
  then show "loadTables db connID schemaName (t # ts) tables log
          = loadTables db connID schemaName ts
              (tables @ [\<lparr>Table_Name = tableName,
                           Table_Description = dbString (get t ''description''),
                           RowCount = dbInt64 (get t ''row_count''),
                           Columns = columns,
                           Indexes = (case indexes of Ok is \<Rightarrow> is | _ \<Rightarrow> []),
                           ForeignKeys = (case foreignKeys of Ok fs \<Rightarrow> fs | _ \<Rightarrow> [])\<rparr>])
              logf"
    by (cases indexes; cases foreignKeys) simp_all
qed






section \<open>The cache after a failed or empty crawl\<close>

text \<open>
  C6. When \<open>LoadSchema\<close> returns an error, the manager, and with it the cached snapshot,
  is the one from before the call, and \<open>GetDatabaseInfo\<close> on it does not report
  \<open>found = true\<close> with an empty snapshot.
\<close>

theorem failed_refresh_keeps_cache:
  assumes "fst (LoadSchema db connID m) = Err e"
  shows "fst (snd (LoadSchema db connID m)) = m
       \<and> (snd (GetDatabaseInfo (fst (snd (LoadSchema db connID m)))) \<longrightarrow>
            (\<exists>c. fst (GetDatabaseInfo (fst (snd (LoadSchema db connID m)))) = Some c
                 \<and> cache m = Some c \<and> Schemas c \<noteq> []))"
proof -
  from assms have m: "fst (snd (LoadSchema db connID m)) = m"
    by (auto simp: LoadSchema_def fetchSchemas_def dbExecuteQuery_def
        split: sum.splits if_splits prod.splits option.splits)
  have "snd (GetDatabaseInfo m) \<longrightarrow>
          (\<exists>c. fst (GetDatabaseInfo m) = Some c \<and> cache m = Some c \<and> Schemas c \<noteq> [])"
    by (auto simp: GetDatabaseInfo_def split: option.splits)
  with m show ?thesis by simp
qed

theorem failed_refresh_keeps_cache_witness:
  "fst (LoadSchema db_down ''c1'' \<lparr>cache = Some public_snapshot\<rparr>)
     = Err (FetchSchemasFailed (DriverError ''connection refused''))
   \<and> fst (snd (LoadSchema db_down ''c1'' \<lparr>cache = Some public_snapshot\<rparr>))
     = \<lparr>cache = Some public_snapshot\<rparr>
   \<and> GetDatabaseInfo (fst (snd (LoadSchema db_down ''c1'' \<lparr>cache = Some public_snapshot\<rparr>)))
     = (Some public_snapshot, True)"
proof -
  have e: "fst (LoadSchema db_down ''c1'' \<lparr>cache = Some public_snapshot\<rparr>)
     = Err (FetchSchemasFailed (DriverError ''connection refused''))"
    by (simp add: LoadSchema_db_down)
  from failed_refresh_keeps_cache [OF e]
  have "fst (snd (LoadSchema db_down ''c1'' \<lparr>cache = Some public_snapshot\<rparr>))
     = \<lparr>cache = Some public_snapshot\<rparr>" by blast
  with e show ?thesis by (simp add: GetDatabaseInfo_def public_snapshot_def)
qed

text \<open>
  C9. When the schema query succeeds with no row, \<open>LoadSchema\<close> returns no error and
  publishes the empty snapshot; \<open>GetDatabaseInfo\<close> then returns \<open>(nil, false)\<close>, and all
  three look-ups answer as they do on the manager that \<open>NewManager\<close> constructs. The
  look-ups do not change the manager, so this holds for every later look-up up to the
  next \<open>LoadSchema\<close>.
\<close>

theorem empty_crawl_publishes_empty_snapshot:
  assumes "db [Lock] connID QSchemas [] = Inr []"
  shows "LoadSchema db connID m
           = (Ok (), m\<lparr>cache := Some \<lparr>Schemas = []\<rparr>\<rparr>, [Lock, Query QSchemas [], Unlock])
       \<and> GetDatabaseInfo (fst (snd (LoadSchema db connID m))) = (None, False)
       \<and> GetDatabaseInfo (fst (snd (LoadSchema db connID m))) = GetDatabaseInfo NewManager
       \<and> GetSchemaInfo (fst (snd (LoadSchema db connID m))) schemaName
           = GetSchemaInfo NewManager schemaName
       \<and> GetTableInfo (fst (snd (LoadSchema db connID m))) schemaName tableName
           = GetTableInfo NewManager schemaName tableName"
proof -
  from assms have l: "LoadSchema db connID m
      = (Ok (), m\<lparr>cache := Some \<lparr>Schemas = []\<rparr>\<rparr>, [Lock, Query QSchemas [], Unlock])"
    by (simp add: LoadSchema_def fetchSchemas_def dbExecuteQuery_def)
  show ?thesis
    by (simp add: l GetDatabaseInfo_def GetSchemaInfo_def GetTableInfo_def NewManager_def)
qed

theorem empty_crawl_publishes_empty_snapshot_witness:
  "db_empty [Lock] ''c1'' QSchemas [] = Inr []
   \<and> LoadSchema db_empty ''c1'' \<lparr>cache = Some public_snapshot\<rparr>
       = (Ok (), \<lparr>cache = Some public_snapshot\<rparr>\<lparr>cache := Some \<lparr>Schemas = []\<rparr>\<rparr>,
          [Lock, Query QSchemas [], Unlock])
   \<and> GetDatabaseInfo (fst (snd (LoadSchema db_empty ''c1'' \<lparr>cache = Some public_snapshot\<rparr>)))
       = (None, False)"
proof -
  have h: "db_empty [Lock] ''c1'' QSchemas [] = Inr []" by (simp add: db_empty_def)
  note inst = empty_crawl_publishes_empty_snapshot [where db = db_empty and connID = "''c1''"
      and m = "\<lparr>cache = Some public_snapshot\<rparr>" and schemaName = "[]" and tableName = "[]"]
  from inst [OF h] h show ?thesis by blast
qed


end
